theory Spec2Isabelle
  imports Main "HOL-Library.Char_ord" "HOL-Library.List_Lexorder"
begin

section \<open>The request store (database.py)\<close>

text \<open>
  One row of the table \<^verbatim>\<open>requests\<close>. The columns are the ones of the
  \<^verbatim>\<open>CREATE TABLE\<close> statement: the status is free text (the code stores the
  strings \<^verbatim>\<open>pending\<close>, \<^verbatim>\<open>completed\<close>, \<^verbatim>\<open>failed\<close> and
  \<^verbatim>\<open>cancelled\<close>), the nullable columns are options. Strings are lists of
  8-bit characters; text comparison is the byte-wise one of SQLite's default collation.
\<close>

record request =
  req_id :: nat
  user_id :: string
  chat_id :: string
  requested_date :: string
  requested_time :: string
  court_preference :: "string option"
  duration :: int
  status :: string
  created_at :: string
  processed_at :: "string option"
  result_message :: "string option"

text \<open>
  The table in rowid order, and the counter that \<^verbatim>\<open>AUTOINCREMENT\<close> keeps (the
  largest rowid ever handed out). Timestamps (\<^verbatim>\<open>datetime.now().isoformat()\<close>)
  are passed in by the caller of each operation.
\<close>

record database =
  rows :: "request list"
  last_id :: nat

definition init_db :: database where
  "init_db = \<lparr>rows = [], last_id = 0\<rparr>"

definition next_rowid :: "database \<Rightarrow> nat" where
  "next_rowid db = fold max (map req_id (rows db)) (last_id db) + 1"

definition add_request ::
  "database \<Rightarrow> string \<Rightarrow> string \<Rightarrow> string \<Rightarrow> string \<Rightarrow> string option \<Rightarrow> int \<Rightarrow> string
    \<Rightarrow> nat \<times> database" where
  "add_request db uid cid rdate rtime court dur now =
     (let rid = next_rowid db;
          row = \<lparr>req_id = rid, user_id = uid, chat_id = cid, requested_date = rdate,
                 requested_time = rtime, court_preference = court, duration = dur,
                 status = ''pending'', created_at = now, processed_at = None,
                 result_message = None\<rparr>
      in (rid, \<lparr>rows = rows db @ [row], last_id = rid\<rparr>))"

definition get_pending_requests :: "database \<Rightarrow> request list" where
  "get_pending_requests db =
     sort_key created_at (filter (\<lambda>r. status r = ''pending'') (rows db))"

definition get_requests_for_date :: "database \<Rightarrow> string \<Rightarrow> request list" where
  "get_requests_for_date db target_date =
     sort_key created_at
       (filter (\<lambda>r. status r = ''pending'' \<and> requested_date r = target_date) (rows db))"

definition get_user_requests :: "database \<Rightarrow> string \<Rightarrow> request list" where
  "get_user_requests db uid =
     rev (sort_key created_at (filter (\<lambda>r. user_id r = uid) (rows db)))"

definition set_status_row :: "string \<Rightarrow> string \<Rightarrow> string option \<Rightarrow> request \<Rightarrow> request" where
  "set_status_row st now msg r =
     r\<lparr>status := st, processed_at := Some now, result_message := msg\<rparr>"

definition update_request_status ::
  "database \<Rightarrow> nat \<Rightarrow> string \<Rightarrow> string option \<Rightarrow> string \<Rightarrow> database" where
  "update_request_status db rid st msg now =
     db\<lparr>rows := map (\<lambda>r. if req_id r = rid then set_status_row st now msg r else r) (rows db)\<rparr>"

definition cancel_hit :: "nat \<Rightarrow> string \<Rightarrow> request \<Rightarrow> bool" where
  "cancel_hit rid uid r \<longleftrightarrow> req_id r = rid \<and> user_id r = uid \<and> status r = ''pending''"

definition cancel_request :: "database \<Rightarrow> nat \<Rightarrow> string \<Rightarrow> bool \<times> database" where
  "cancel_request db rid uid =
     (let rowcount = length (filter (cancel_hit rid uid) (rows db))
      in (0 < rowcount,
          db\<lparr>rows := map (\<lambda>r. if cancel_hit rid uid r then r\<lparr>status := ''cancelled''\<rparr> else r)
                        (rows db)\<rparr>))"

definition get_request :: "database \<Rightarrow> nat \<Rightarrow> request option" where
  "get_request db rid = find (\<lambda>r. req_id r = rid) (rows db)"

subsection \<open>Sequences of repository operations\<close>

text \<open>
  The three writing operations of the store as one datatype, so that a history of the store
  is a list. \<open>op_in_contract\<close> is the repository interface's restriction on status
  updates: the batch scheduler, the only caller of \<^verbatim>\<open>update_request_status\<close>,
  passes \<^verbatim>\<open>completed\<close> or \<^verbatim>\<open>failed\<close>.
\<close>

datatype repo_op =
    Create string string string string "string option" int string
  | SetStatus nat string "string option" string
  | Cancel nat string

fun apply_op :: "repo_op \<Rightarrow> database \<Rightarrow> database" where
  "apply_op (Create uid cid rdate rtime court dur now) db =
     snd (add_request db uid cid rdate rtime court dur now)"
| "apply_op (SetStatus rid st msg now) db = update_request_status db rid st msg now"
| "apply_op (Cancel rid uid) db = snd (cancel_request db rid uid)"

definition run_ops :: "repo_op list \<Rightarrow> database \<Rightarrow> database" where
  "run_ops ops db = fold apply_op ops db"

fun op_in_contract :: "repo_op \<Rightarrow> bool" where
  "op_in_contract (SetStatus rid st msg now) \<longleftrightarrow> st = ''completed'' \<or> st = ''failed''"
| "op_in_contract _ \<longleftrightarrow> True"

section \<open>Dates and times (the \<^verbatim>\<open>datetime\<close> calls of the code)\<close>

text \<open>
  \<^verbatim>\<open>datetime.strptime\<close> turns a format into a regular expression, matches it at the
  start of the input with the alternatives tried in the order written, and raises
  \<^verbatim>\<open>ValueError\<close> when nothing matches or when input remains after the match. The
  directives used by the code are \<^verbatim>\<open>%H\<close> (\<^verbatim>\<open>2[0-3]|[0-1]\d|\d\<close>),
  \<^verbatim>\<open>%M\<close> (\<^verbatim>\<open>[0-5]\d|\d\<close>), \<^verbatim>\<open>%Y\<close> (\<^verbatim>\<open>\d\d\d\d\<close>),
  \<^verbatim>\<open>%m\<close> (\<^verbatim>\<open>1[0-2]|0[1-9]|[1-9]\<close>) and \<^verbatim>\<open>%d\<close>
  (\<^verbatim>\<open>3[0-1]|[1-2]\d|0[1-9]|[1-9]| [1-9]\<close>). A matcher returns every way one group
  can match, best first, each with the input left over; backtracking is the order of the
  resulting list. A character is a code point below 256, where \<^verbatim>\<open>\d\<close> is
  \<^verbatim>\<open>[0-9]\<close>; month names and the meridiem are those of the C locale.
\<close>

definition is_digit :: "char \<Rightarrow> bool" where
  "is_digit c \<longleftrightarrow> (48::nat) \<le> of_char c \<and> of_char c \<le> (57::nat)"

definition in_range :: "char \<Rightarrow> char \<Rightarrow> char \<Rightarrow> bool" where
  "in_range lo hi c \<longleftrightarrow> (of_char lo :: nat) \<le> of_char c \<and> of_char c \<le> (of_char hi :: nat)"

definition digit_val :: "char \<Rightarrow> nat" where
  "digit_val c = of_char c - 48"

definition digit_char :: "nat \<Rightarrow> char" where
  "digit_char n = ''0123456789'' ! (n mod 10)"

definition pad2 :: "nat \<Rightarrow> string" where
  "pad2 n = [digit_char (n div 10), digit_char (n mod 10)]"

fun show_nat :: "nat \<Rightarrow> string" where
  "show_nat n = (if n < 10 then [digit_char n] else show_nat (n div 10) @ [digit_char (n mod 10)])"

declare show_nat.simps [simp del]

definition show_int :: "int \<Rightarrow> string" where
  "show_int i = (if i < 0 then ''-'' @ show_nat (nat (- i)) else show_nat (nat i))"

definition re_lit :: "char \<Rightarrow> string \<Rightarrow> string list" where
  "re_lit c s = (case s of x # r \<Rightarrow> if x = c then [r] else [] | [] \<Rightarrow> [])"

definition re_two :: "(char \<Rightarrow> bool) \<Rightarrow> (char \<Rightarrow> bool) \<Rightarrow> string \<Rightarrow> (nat \<times> string) list" where
  "re_two p q s =
     (case s of c1 # c2 # r \<Rightarrow>
        if p c1 \<and> q c2 then [(10 * digit_val c1 + digit_val c2, r)] else []
      | _ \<Rightarrow> [])"

definition re_one :: "(char \<Rightarrow> bool) \<Rightarrow> string \<Rightarrow> (nat \<times> string) list" where
  "re_one p s = (case s of c # r \<Rightarrow> if p c then [(digit_val c, r)] else [] | [] \<Rightarrow> [])"

definition re_H :: "string \<Rightarrow> (nat \<times> string) list" where
  "re_H s = re_two (\<lambda>c. c = CHR ''2'') (in_range CHR ''0'' CHR ''3'') s
          @ re_two (in_range CHR ''0'' CHR ''1'') is_digit s
          @ re_one is_digit s"

definition re_M :: "string \<Rightarrow> (nat \<times> string) list" where
  "re_M s = re_two (in_range CHR ''0'' CHR ''5'') is_digit s @ re_one is_digit s"

definition match_HM :: "string \<Rightarrow> (nat \<times> nat \<times> string) list" where
  "match_HM s =
     concat (map (\<lambda>(h, r1).
       concat (map (\<lambda>r2. map (\<lambda>(m, r3). (h, m, r3)) (re_M r2)) (re_lit CHR '':'' r1)))
       (re_H s))"

text \<open>\<^verbatim>\<open>datetime.strptime(time_str, '%H:%M')\<close>; \<open>None\<close> is \<^verbatim>\<open>ValueError\<close>.\<close>

definition strptime_HM :: "string \<Rightarrow> (nat \<times> nat) option" where
  "strptime_HM s =
     (case match_HM s of
        [] \<Rightarrow> None
      | (h, m, rest) # _ \<Rightarrow> if rest = [] then Some (h, m) else None)"

definition hour12 :: "nat \<Rightarrow> nat" where
  "hour12 h = (if h mod 12 = 0 then 12 else h mod 12)"

definition am_pm :: "nat \<Rightarrow> string" where
  "am_pm h = (if h < 12 then ''AM'' else ''PM'')"

text \<open>\<^verbatim>\<open>time_obj.strftime('%I:%M %p')\<close>.\<close>

definition strftime_IMp :: "nat \<Rightarrow> nat \<Rightarrow> string" where
  "strftime_IMp h m = pad2 (hour12 h) @ '':'' @ pad2 m @ '' '' @ am_pm h"

definition convert_time_format :: "string \<Rightarrow> string" where
  "convert_time_format time_str =
     (case strptime_HM time_str of
        Some (h, m) \<Rightarrow> strftime_IMp h m
      | None \<Rightarrow> time_str)"

subsection \<open>Civil dates\<close>

record civil_date =
  year :: nat
  month :: nat
  day :: nat

definition is_leap :: "nat \<Rightarrow> bool" where
  "is_leap y \<longleftrightarrow> y mod 4 = 0 \<and> (y mod 100 \<noteq> 0 \<or> y mod 400 = 0)"

definition days_in_month :: "nat \<Rightarrow> nat \<Rightarrow> nat" where
  "days_in_month y m =
     (if m = 2 then (if is_leap y then 29 else 28)
      else if m = 4 \<or> m = 6 \<or> m = 9 \<or> m = 11 then 30 else 31)"

definition valid_date :: "civil_date \<Rightarrow> bool" where
  "valid_date d \<longleftrightarrow> 1 \<le> year d \<and> year d \<le> 9999 \<and> 1 \<le> month d \<and> month d \<le> 12
     \<and> 1 \<le> day d \<and> day d \<le> days_in_month (year d) (month d)"

definition next_day :: "civil_date \<Rightarrow> civil_date" where
  "next_day d =
     (if day d < days_in_month (year d) (month d) then d\<lparr>day := day d + 1\<rparr>
      else if month d < 12 then d\<lparr>month := month d + 1, day := 1\<rparr>
      else \<lparr>year = year d + 1, month = 1, day = 1\<rparr>)"

text \<open>\<^verbatim>\<open>d.strftime('%Y-%m-%d')\<close> (the year is not padded by the C library).\<close>

definition strftime_Ymd :: "civil_date \<Rightarrow> string" where
  "strftime_Ymd d = show_nat (year d) @ ''-'' @ pad2 (month d) @ ''-'' @ pad2 (day d)"

definition re_Y :: "string \<Rightarrow> (nat \<times> string) list" where
  "re_Y s =
     (case s of c1 # c2 # c3 # c4 # r \<Rightarrow>
        if is_digit c1 \<and> is_digit c2 \<and> is_digit c3 \<and> is_digit c4
        then [(1000 * digit_val c1 + 100 * digit_val c2 + 10 * digit_val c3 + digit_val c4, r)]
        else []
      | _ \<Rightarrow> [])"

definition re_m :: "string \<Rightarrow> (nat \<times> string) list" where
  "re_m s = re_two (\<lambda>c. c = CHR ''1'') (in_range CHR ''0'' CHR ''2'') s
          @ re_two (\<lambda>c. c = CHR ''0'') (in_range CHR ''1'' CHR ''9'') s
          @ re_one (in_range CHR ''1'' CHR ''9'') s"

definition re_d :: "string \<Rightarrow> (nat \<times> string) list" where
  "re_d s = re_two (\<lambda>c. c = CHR ''3'') (in_range CHR ''0'' CHR ''1'') s
          @ re_two (in_range CHR ''1'' CHR ''2'') is_digit s
          @ re_two (\<lambda>c. c = CHR ''0'') (in_range CHR ''1'' CHR ''9'') s
          @ re_one (in_range CHR ''1'' CHR ''9'') s
          @ concat (map (re_one (in_range CHR ''1'' CHR ''9'')) (re_lit CHR '' '' s))"

definition match_Ymd :: "string \<Rightarrow> (civil_date \<times> string) list" where
  "match_Ymd s =
     concat (map (\<lambda>(y, r1).
       concat (map (\<lambda>r2.
         concat (map (\<lambda>(m, r3).
           concat (map (\<lambda>r4.
             map (\<lambda>(d, r5). (\<lparr>year = y, month = m, day = d\<rparr>, r5)) (re_d r4))
             (re_lit CHR ''-'' r3)))
           (re_m r2)))
         (re_lit CHR ''-'' r1)))
       (re_Y s))"

text \<open>\<^verbatim>\<open>datetime.strptime(date_str, '%Y-%m-%d')\<close>; \<open>None\<close> is \<^verbatim>\<open>ValueError\<close>.\<close>

definition strptime_Ymd :: "string \<Rightarrow> civil_date option" where
  "strptime_Ymd s =
     (case match_Ymd s of
        [] \<Rightarrow> None
      | (d, rest) # _ \<Rightarrow> if rest = [] \<and> valid_date d then Some d else None)"

definition month_names :: "string list" where
  "month_names = [''January'', ''February'', ''March'', ''April'', ''May'', ''June'', ''July'',
     ''August'', ''September'', ''October'', ''November'', ''December'']"

definition month_name :: "nat \<Rightarrow> string" where
  "month_name m = month_names ! (m - 1)"

definition month_abbrev :: "nat \<Rightarrow> string" where
  "month_abbrev m = take 3 (month_name m)"

definition convert_date_format :: "string \<Rightarrow> string" where
  "convert_date_format date_str =
     (case strptime_Ymd date_str of
        Some d \<Rightarrow> pad2 (month d) @ ''/'' @ pad2 (day d) @ ''/'' @ show_nat (year d)
      | None \<Rightarrow> date_str)"

text \<open>
  \<^verbatim>\<open>_parse_date_for_grid\<close>: day number, month name and abbreviation, or three
  \<^verbatim>\<open>None\<close>s for a date that does not parse.
\<close>

definition parse_date_for_grid :: "string \<Rightarrow> string option \<times> string option \<times> string option" where
  "parse_date_for_grid date_str =
     (case strptime_Ymd date_str of
        Some d \<Rightarrow> (Some (show_nat (day d)), Some (month_name (month d)), Some (month_abbrev (month d)))
      | None \<Rightarrow> (None, None, None))"

definition py_str :: "string option \<Rightarrow> string" where
  "py_str v = (case v of None \<Rightarrow> ''None'' | Some s \<Rightarrow> s)"

section \<open>The browser session (booking_scraper.py)\<close>

subsection \<open>Exceptions, control flow and the outside world\<close>

text \<open>
  The exceptions the code distinguishes by class, each with its \<^verbatim>\<open>str(e)\<close>. Every one
  is an \<^verbatim>\<open>Exception\<close>, which is what \<^verbatim>\<open>except Exception\<close> catches.
\<close>

datatype exn = TimeoutException string | NoSuchElementException string | OtherException string

fun exn_text :: "exn \<Rightarrow> string" where
  "exn_text (TimeoutException m) = m"
| "exn_text (NoSuchElementException m) = m"
| "exn_text (OtherException m) = m"

text \<open>
  A block of statements either raises, returns from the enclosing function, or falls through
  to the next statement; it runs in a world \<open>'w\<close> (the browser, the page, the clock).
\<close>

datatype ('r, 'a) flow = Raise exn | Return 'r | Next 'a

type_synonym ('r, 'a, 'w) stmt = "'w \<Rightarrow> ('r, 'a) flow \<times> 'w"

definition and_then :: "('r, 'a, 'w) stmt \<Rightarrow> ('a \<Rightarrow> ('r, 'b, 'w) stmt) \<Rightarrow> ('r, 'b, 'w) stmt" where
  "and_then m f w =
     (case m w of
        (Next a, w') \<Rightarrow> f a w'
      | (Raise e, w') \<Rightarrow> (Raise e, w')
      | (Return r, w') \<Rightarrow> (Return r, w'))"

definition act :: "('w \<Rightarrow> (exn + 'a) \<times> 'w) \<Rightarrow> ('r, 'a, 'w) stmt" where
  "act f w = (case f w of (Inl e, w') \<Rightarrow> (Raise e, w') | (Inr a, w') \<Rightarrow> (Next a, w'))"

definition query :: "('w \<Rightarrow> exn + 'a) \<Rightarrow> ('r, 'a, 'w) stmt" where
  "query q w = (case q w of Inl e \<Rightarrow> (Raise e, w) | Inr a \<Rightarrow> (Next a, w))"

definition effect :: "('w \<Rightarrow> 'w) \<Rightarrow> ('r, unit, 'w) stmt" where
  "effect f w = (Next (), f w)"

definition ret :: "'r \<Rightarrow> ('r, 'a, 'w) stmt" where
  "ret r w = (Return r, w)"

definition continue :: "'a \<Rightarrow> ('r, 'a, 'w) stmt" where
  "continue a w = (Next a, w)"

text \<open>\<^verbatim>\<open>try: m except Exception as e: h e\<close> and \<^verbatim>\<open>try: m except TimeoutException: h\<close>.\<close>

definition try_except :: "('r, 'a, 'w) stmt \<Rightarrow> (exn \<Rightarrow> ('r, 'a, 'w) stmt) \<Rightarrow> ('r, 'a, 'w) stmt" where
  "try_except m h w = (case m w of (Raise e, w') \<Rightarrow> h e w' | other \<Rightarrow> other)"

definition try_except_timeout :: "('r, 'a, 'w) stmt \<Rightarrow> ('r, 'a, 'w) stmt \<Rightarrow> ('r, 'a, 'w) stmt" where
  "try_except_timeout m h w =
     (case m w of (Raise (TimeoutException x), w') \<Rightarrow> h w' | other \<Rightarrow> other)"

datatype locate_by = By_CSS_SELECTOR | By_XPATH | By_ID

datatype condition = Presence_of_element_located | Element_to_be_clickable

datatype level = DEBUG | INFO | WARNING | ERROR

text \<open>
  The Selenium calls the code makes, as functions of the world. Calls that act on the browser
  or let time pass return the new world; \<^verbatim>\<open>find_element\<close>, \<^verbatim>\<open>current_url\<close>,
  \<^verbatim>\<open>is_displayed\<close> and \<^verbatim>\<open>text\<close> read the page as it is. \<open>'e\<close> is the type of
  element handles. \<open>wait_until t c by sel\<close> is
  \<^verbatim>\<open>WebDriverWait(driver, t).until(c((by, sel)))\<close>.
\<close>

record ('w, 'e) browser =
  new_chrome :: "'w \<Rightarrow> (exn + unit) \<times> 'w"
  execute_script :: "string \<Rightarrow> 'e list \<Rightarrow> 'w \<Rightarrow> (exn + unit) \<times> 'w"
  drv_get :: "string \<Rightarrow> 'w \<Rightarrow> (exn + unit) \<times> 'w"
  drv_quit :: "'w \<Rightarrow> (exn + unit) \<times> 'w"
  wait_until :: "nat \<Rightarrow> condition \<Rightarrow> locate_by \<Rightarrow> string \<Rightarrow> 'w \<Rightarrow> (exn + 'e) \<times> 'w"
  find_element :: "locate_by \<Rightarrow> string \<Rightarrow> 'w \<Rightarrow> exn + 'e"
  current_url :: "'w \<Rightarrow> exn + string"
  el_click :: "'e \<Rightarrow> 'w \<Rightarrow> (exn + unit) \<times> 'w"
  el_clear :: "'e \<Rightarrow> 'w \<Rightarrow> (exn + unit) \<times> 'w"
  el_send_keys :: "'e \<Rightarrow> string \<Rightarrow> 'w \<Rightarrow> (exn + unit) \<times> 'w"
  el_is_displayed :: "'e \<Rightarrow> 'w \<Rightarrow> exn + bool"
  el_text :: "'e \<Rightarrow> 'w \<Rightarrow> exn + string"

text \<open>
  What else the code touches: \<^verbatim>\<open>time.sleep\<close> (in milliseconds), the logger, the
  clock, \<^verbatim>\<open>traceback.format_exc\<close> and the Telegram bot's \<^verbatim>\<open>send_message\<close>.
\<close>

record 'w env =
  sleep :: "nat \<Rightarrow> 'w \<Rightarrow> 'w"
  logger :: "level \<Rightarrow> string \<Rightarrow> 'w \<Rightarrow> 'w"
  today :: "'w \<Rightarrow> civil_date"
  now_isoformat :: "'w \<Rightarrow> string"
  format_exc :: "exn \<Rightarrow> string"
  send_message :: "string \<Rightarrow> string \<Rightarrow> 'w \<Rightarrow> (exn + unit) \<times> 'w"

record config =
  booking_url :: string
  username :: string
  password :: string

record outcome =
  success :: bool
  message :: string

definition sq :: string where
  "sq = [CHR 0x27]"

fun starts_with :: "string \<Rightarrow> string \<Rightarrow> bool" where
  "starts_with [] s = True"
| "starts_with (p # ps) [] = False"
| "starts_with (p # ps) (c # cs) = (p = c \<and> starts_with ps cs)"

fun str_contains :: "string \<Rightarrow> string \<Rightarrow> bool" where
  "str_contains p [] = (p = [])"
| "str_contains p (c # cs) = (starts_with p (c # cs) \<or> str_contains p cs)"

definition lower_char :: "char \<Rightarrow> char" where
  "lower_char c =
     (if in_range CHR ''A'' CHR ''Z'' c then char_of ((of_char c :: nat) + 32) else c)"

definition str_lower :: "string \<Rightarrow> string" where
  "str_lower s = map lower_char s"

subsection \<open>\<^verbatim>\<open>_setup_driver\<close>, \<^verbatim>\<open>login\<close> and \<^verbatim>\<open>close\<close>\<close>

text \<open>
  The scraper object's own state is its field \<^verbatim>\<open>self.driver\<close>: \<open>True\<close> when a
  driver is held, \<open>False\<close> for \<^verbatim>\<open>None\<close>. \<^verbatim>\<open>_setup_driver\<close> logs and re-raises.
\<close>

definition setup_driver :: "('w, 'e) browser \<Rightarrow> 'w env \<Rightarrow> bool \<Rightarrow> 'w \<Rightarrow> (exn + unit) \<times> bool \<times> 'w" where
  "setup_driver B E drv w =
     (case new_chrome B w of
        (Inl e, w1) \<Rightarrow>
          (Inl e, drv, logger E ERROR (''Failed to initialize Chrome driver: '' @ exn_text e) w1)
      | (Inr u, w1) \<Rightarrow>
          (case execute_script B
                  ''Object.defineProperty(navigator, 'webdriver', {get: () => undefined})'' [] w1 of
             (Inl e, w2) \<Rightarrow>
               (Inl e, True, logger E ERROR (''Failed to initialize Chrome driver: '' @ exn_text e) w2)
           | (Inr u', w2) \<Rightarrow> (Inr (), True, w2)))"

definition username_selectors :: "string list" where
  "username_selectors =
     [''#_com_liferay_login_web_portlet_LoginPortlet_login'',
      ''input[name*='login']'',
      ''input[id*='login']'']"

definition password_selectors :: "string list" where
  "password_selectors =
     [''#_com_liferay_login_web_portlet_LoginPortlet_password'',
      ''input[type='password']'',
      ''#password'']"

definition login_submit_selectors :: "string list" where
  "login_submit_selectors =
     [''button[type='submit']'',
      ''input[type='submit']'',
      ''button:contains('Login')'',
      ''button:contains('Sign in')'',
      ''.login-button'',
      ''#login-button'']"

text \<open>The three selector loops of \<^verbatim>\<open>login\<close>; \<open>None\<close> when the list is exhausted.\<close>

fun find_username_field :: "('w, 'e) browser \<Rightarrow> string list \<Rightarrow> ('r, 'e option, 'w) stmt" where
  "find_username_field B [] w = (Next None, w)"
| "find_username_field B (selector # rest) w =
     (case wait_until B 10 Presence_of_element_located By_CSS_SELECTOR selector w of
        (Inr el, w') \<Rightarrow> (Next (Some el), w')
      | (Inl (TimeoutException x), w') \<Rightarrow> find_username_field B rest w'
      | (Inl e, w') \<Rightarrow> (Raise e, w'))"

fun find_password_field :: "('w, 'e) browser \<Rightarrow> string list \<Rightarrow> ('r, 'e option, 'w) stmt" where
  "find_password_field B [] w = (Next None, w)"
| "find_password_field B (selector # rest) w =
     (case find_element B By_CSS_SELECTOR selector w of
        Inr el \<Rightarrow> (Next (Some el), w)
      | Inl (NoSuchElementException x) \<Rightarrow> find_password_field B rest w
      | Inl e \<Rightarrow> (Raise e, w))"

fun find_login_submit :: "('w, 'e) browser \<Rightarrow> string list \<Rightarrow> ('r, 'e option, 'w) stmt" where
  "find_login_submit B [] w = (Next None, w)"
| "find_login_submit B (selector # rest) w =
     (case (if str_contains ''contains'' selector
            then find_element B By_XPATH
                   ''//button[contains(text(), 'Login') or contains(text(), 'Sign in')]'' w
            else find_element B By_CSS_SELECTOR selector w) of
        Inr el \<Rightarrow> (Next (Some el), w)
      | Inl (NoSuchElementException x) \<Rightarrow> find_login_submit B rest w
      | Inl e \<Rightarrow> (Raise e, w))"

definition enter_credentials ::
  "('w, 'e) browser \<Rightarrow> 'w env \<Rightarrow> config \<Rightarrow> 'e \<Rightarrow> 'e \<Rightarrow> (bool, unit, 'w) stmt" where
  "enter_credentials B E cfg username_field password_field =
     and_then (act (el_clear B username_field)) (\<lambda>_.
     and_then (act (el_send_keys B username_field (username cfg))) (\<lambda>_.
     and_then (effect (sleep E 500)) (\<lambda>_.
     and_then (act (el_clear B password_field)) (\<lambda>_.
     and_then (act (el_send_keys B password_field (password cfg))) (\<lambda>_.
     effect (sleep E 500))))))"

definition submit_login ::
  "('w, 'e) browser \<Rightarrow> 'w env \<Rightarrow> 'e \<Rightarrow> (bool, unit, 'w) stmt" where
  "submit_login B E password_field =
     and_then (find_login_submit B login_submit_selectors) (\<lambda>submit_button.
     and_then (case submit_button of
                 Some b \<Rightarrow> act (el_click B b)
               | None \<Rightarrow> act (el_send_keys B password_field [CHR 0x0A])) (\<lambda>_.
     effect (sleep E 3000)))"

definition check_logged_in :: "('w, 'e) browser \<Rightarrow> 'w env \<Rightarrow> (bool, unit, 'w) stmt" where
  "check_logged_in B E =
     and_then (query (current_url B)) (\<lambda>url.
       if str_contains ''login'' (str_lower url)
       then and_then (effect (logger E WARNING ''Still on login page, login may have failed''))
              (\<lambda>_. ret False)
       else and_then (effect (logger E INFO ''Login successful'')) (\<lambda>_. ret True))"

text \<open>The \<^verbatim>\<open>try\<close> block of \<^verbatim>\<open>login\<close>.\<close>

definition login_body :: "('w, 'e) browser \<Rightarrow> 'w env \<Rightarrow> config \<Rightarrow> (bool, unit, 'w) stmt" where
  "login_body B E cfg =
     and_then (act (drv_get B (booking_url cfg))) (\<lambda>_.
     and_then (effect (sleep E 2000)) (\<lambda>_.
     and_then (find_username_field B username_selectors) (\<lambda>username_field.
       case username_field of
         None \<Rightarrow> and_then (effect (logger E ERROR ''Could not find username field''))
                   (\<lambda>_. ret False)
       | Some uf \<Rightarrow>
           and_then (find_password_field B password_selectors) (\<lambda>password_field.
             case password_field of
               None \<Rightarrow> and_then (effect (logger E ERROR ''Could not find password field''))
                         (\<lambda>_. ret False)
             | Some pf \<Rightarrow>
                 and_then (enter_credentials B E cfg uf pf) (\<lambda>_.
                 and_then (submit_login B E pf) (\<lambda>_.
                 check_logged_in B E))))))"

text \<open>
  \<^verbatim>\<open>login\<close>: the driver is set up before the \<^verbatim>\<open>try\<close> block, so an exception of
  \<^verbatim>\<open>_setup_driver\<close> leaves the method; inside the block every exception ends in
  \<^verbatim>\<open>return False\<close>.
\<close>

definition login_try ::
  "('w, 'e) browser \<Rightarrow> 'w env \<Rightarrow> config \<Rightarrow> 'w \<Rightarrow> bool \<times> 'w" where
  "login_try B E cfg w =
     (case login_body B E cfg w of
        (Raise e, w') \<Rightarrow> (False, logger E ERROR (''Login failed: '' @ exn_text e) w')
      | (Return b, w') \<Rightarrow> (b, w')
      | (Next u, w') \<Rightarrow> (False, w'))"

definition login ::
  "('w, 'e) browser \<Rightarrow> 'w env \<Rightarrow> config \<Rightarrow> bool \<Rightarrow> 'w \<Rightarrow> (exn + bool) \<times> bool \<times> 'w" where
  "login B E cfg drv w =
     (if \<not> drv then
        (case setup_driver B E drv w of
           (Inl e, drv', w') \<Rightarrow> (Inl e, drv', w')
         | (Inr u, drv', w') \<Rightarrow> (case login_try B E cfg w' of (b, w'') \<Rightarrow> (Inr b, drv', w'')))
      else (case login_try B E cfg w of (b, w') \<Rightarrow> (Inr b, drv, w')))"

definition close :: "('w, 'e) browser \<Rightarrow> bool \<Rightarrow> 'w \<Rightarrow> (exn + unit) \<times> bool \<times> 'w" where
  "close B drv w =
     (if drv then
        (case drv_quit B w of
           (Inl e, w') \<Rightarrow> (Inl e, drv, w')
         | (Inr u, w') \<Rightarrow> (Inr (), False, w'))
      else (Inr (), drv, w))"

subsection \<open>\<^verbatim>\<open>_select_dropdown_option\<close>\<close>

definition click_script :: string where
  "click_script = ''arguments[0].click();''"

definition scroll_center_script :: string where
  "scroll_center_script = ''arguments[0].scrollIntoView({block: 'center', inline: 'center'});''"

text \<open>\<^verbatim>\<open>try: el.click() except Exception: driver.execute_script(click, el)\<close>.\<close>

definition click_or_js :: "('w, 'e) browser \<Rightarrow> 'e \<Rightarrow> ('r, unit, 'w) stmt" where
  "click_or_js B el =
     try_except (act (el_click B el)) (\<lambda>_. act (execute_script B click_script [el]))"

definition option_xpath :: "string \<Rightarrow> string" where
  "option_xpath option_text =
     ''//li[contains(@class, 'ui-selectonemenu-item') and '' @
     ''(@data-label='' @ sq @ option_text @ sq @ '' or normalize-space(text())='' @ sq @
       option_text @ sq @ '')]''"

definition select_dropdown_body ::
  "('w, 'e) browser \<Rightarrow> 'w env \<Rightarrow> string \<Rightarrow> string \<Rightarrow> nat \<Rightarrow> (bool, unit, 'w) stmt" where
  "select_dropdown_body B E label_id option_text wait_time =
     and_then (act (wait_until B wait_time Element_to_be_clickable By_ID label_id)) (\<lambda>label.
     and_then (act (el_click B label)) (\<lambda>_.
     and_then (effect (sleep E 500)) (\<lambda>_.
     and_then (act (wait_until B wait_time Element_to_be_clickable By_XPATH
                      (option_xpath option_text))) (\<lambda>opt.
     and_then (click_or_js B opt) (\<lambda>_.
     and_then (effect (sleep E 500)) (\<lambda>_.
     ret True))))))"

definition select_dropdown_option ::
  "('w, 'e) browser \<Rightarrow> 'w env \<Rightarrow> string \<Rightarrow> string \<Rightarrow> 'w \<Rightarrow> bool \<times> 'w" where
  "select_dropdown_option B E label_id option_text w =
     (case select_dropdown_body B E label_id option_text 10 w of
        (Raise e, w') \<Rightarrow>
          (False, logger E ERROR (''Failed to select dropdown option '' @ sq @ option_text @ sq
                                   @ '' from '' @ label_id @ '': '' @ exn_text e) w')
      | (Return b, w') \<Rightarrow> (b, w')
      | (Next u, w') \<Rightarrow> (False, w'))"

subsection \<open>\<^verbatim>\<open>make_booking\<close>\<close>

definition date_link_xpath :: "string \<Rightarrow> string" where
  "date_link_xpath date =
     (case parse_date_for_grid date of (day_number, month_nm, month_abbr) \<Rightarrow>
        ''//div[contains(@class, 'horizontal-dates')]//a['' @
        ''.//span[contains(@class, 'calendar-date') and normalize-space()='' @ sq @
          py_str day_number @ sq @ ''] and '' @
        ''.//span[contains(@class, 'calendar-year') and (normalize-space()='' @ sq @
          py_str month_nm @ sq @ '' or normalize-space()='' @ sq @ py_str month_abbr @ sq @
          '')]'' @
        '']'')"

text \<open>Step 1: open the portal and click the date in the horizontal calendar.\<close>

definition select_date ::
  "('w, 'e) browser \<Rightarrow> 'w env \<Rightarrow> config \<Rightarrow> string \<Rightarrow> (outcome, unit, 'w) stmt" where
  "select_date B E cfg date =
     and_then (act (drv_get B (booking_url cfg))) (\<lambda>_.
     and_then (effect (sleep E 3000)) (\<lambda>_.
     and_then (act (wait_until B 15 Element_to_be_clickable By_XPATH (date_link_xpath date)))
       (\<lambda>date_link.
     and_then (act (execute_script B scroll_center_script [date_link])) (\<lambda>_.
     and_then (effect (sleep E 1000)) (\<lambda>_.
     and_then (act (execute_script B click_script [date_link])) (\<lambda>_.
     and_then (effect (logger E INFO
        (case parse_date_for_grid date of (day_number, month_nm, month_abbr) \<Rightarrow>
           ''Clicked date: '' @ py_str day_number @ '' '' @ py_str month_nm))) (\<lambda>_.
     effect (sleep E 4000))))))))"

definition ENTRY_TIME :: string where
  "ENTRY_TIME = ''06:00 AM''"

definition ENTRY_ID :: string where
  "ENTRY_ID = ''11''"

definition target_xpath :: string where
  "target_xpath = ''//div[@data-area-id='' @ sq @ ENTRY_ID @ sq @ '' and @data-start-time=''
     @ sq @ ENTRY_TIME @ sq @ '']/ancestor::td[1]''"

text \<open>The click on the entry cell: directly, then by script; the result is \<^verbatim>\<open>clicked\<close>.\<close>

definition click_entry_cell :: "('w, 'e) browser \<Rightarrow> 'w env \<Rightarrow> 'e \<Rightarrow> (outcome, bool, 'w) stmt" where
  "click_entry_cell B E target_cell =
     try_except
       (and_then (act (el_click B target_cell)) (\<lambda>_.
        and_then (effect (logger E INFO ''Clicked grid cell directly'')) (\<lambda>_.
        continue True)))
       (\<lambda>_. try_except
          (and_then (effect (logger E INFO ''Direct click failed, trying JavaScript click'')) (\<lambda>_.
           and_then (act (execute_script B click_script [target_cell])) (\<lambda>_.
           continue True)))
          (\<lambda>e. and_then (effect (logger E ERROR
                   (''All click methods failed on the grid cell: '' @ exn_text e))) (\<lambda>_.
                continue False)))"

text \<open>Step 2: the fixed entry cell of the grid opens the reservation form.\<close>

definition open_entry :: "('w, 'e) browser \<Rightarrow> 'w env \<Rightarrow> (outcome, unit, 'w) stmt" where
  "open_entry B E =
     try_except_timeout
       (and_then (act (wait_until B 15 Presence_of_element_located By_XPATH target_xpath))
          (\<lambda>target_cell.
        and_then (act (execute_script B scroll_center_script [target_cell])) (\<lambda>_.
        and_then (effect (sleep E 1000)) (\<lambda>_.
        and_then (click_entry_cell B E target_cell) (\<lambda>clicked.
          if \<not> clicked
          then ret \<lparr>success = False,
                    message = ''Found entry slot but could not trigger the click event.''\<rparr>
          else continue ())))))
       (ret \<lparr>success = False,
             message = ''Entry slot (ID '' @ ENTRY_ID @ '' at '' @ ENTRY_TIME @ '') not found in grid.''\<rparr>)"

definition court_label_id :: string where
  "court_label_id = ''_activities_WAR_northstarportlet_:activityForm:j_idt1068_label''"

definition time_label_id :: string where
  "time_label_id = ''_activities_WAR_northstarportlet_:activityForm:fromTime_label''"

definition duration_label_id :: string where
  "duration_label_id = ''_activities_WAR_northstarportlet_:activityForm:j_idt1082_label''"

text \<open>
  Step 3, one dropdown at a time. The court is selected only for a preference that is neither
  \<^verbatim>\<open>None\<close> nor empty.
\<close>

definition select_court ::
  "('w, 'e) browser \<Rightarrow> 'w env \<Rightarrow> string option \<Rightarrow> (outcome, unit, 'w) stmt" where
  "select_court B E court_pref =
     (case court_pref of
        None \<Rightarrow> continue ()
      | Some c \<Rightarrow>
          if c = [] then continue ()
          else (\<lambda>w. case select_dropdown_option B E court_label_id c w of
                  (ok, w') \<Rightarrow>
                    (Next (), sleep E 1000
                       (if \<not> ok
                        then logger E WARNING (''Could not select '' @ c
                               @ '', proceeding with current selection.'') w'
                        else w'))))"

definition select_time :: "('w, 'e) browser \<Rightarrow> 'w env \<Rightarrow> string \<Rightarrow> (outcome, unit, 'w) stmt" where
  "select_time B E time_slot w =
     (case select_dropdown_option B E time_label_id (convert_time_format time_slot) w of
        (ok, w') \<Rightarrow>
          if \<not> ok
          then (Return \<lparr>success = False,
                         message = ''Could not select time '' @ convert_time_format time_slot
                                   @ '' in form dropdown.''\<rparr>, w')
          else (Next (), sleep E 1000 w'))"

definition select_duration :: "('w, 'e) browser \<Rightarrow> 'w env \<Rightarrow> int \<Rightarrow> (outcome, unit, 'w) stmt" where
  "select_duration B E duration_minutes w =
     (case select_dropdown_option B E duration_label_id (show_int duration_minutes) w of
        (ok, w') \<Rightarrow>
          (Next (), sleep E 1000
             (if \<not> ok
              then logger E WARNING (''Could not select duration '' @ show_int duration_minutes) w'
              else w')))"

definition fill_form ::
  "('w, 'e) browser \<Rightarrow> 'w env \<Rightarrow> string \<Rightarrow> string option \<Rightarrow> int \<Rightarrow> (outcome, unit, 'w) stmt" where
  "fill_form B E time_slot court_pref duration_minutes =
     and_then (select_court B E court_pref) (\<lambda>_.
     and_then (select_time B E time_slot) (\<lambda>_.
     select_duration B E duration_minutes))"

definition submit_selectors :: "string list" where
  "submit_selectors =
     [''button[type='submit'].btn-save'',
      ''//button[contains(@id, 'activityForm')]//span[contains(text(), 'Save')]'',
      ''button.ui-area-btn-success'',
      ''//button[contains(@class, 'ui-button')]//span[normalize-space()='Save']'',
      ''button[type='submit']'',
      ''//button[contains(@class, 'ui-button')]'']"

text \<open>One pass of the submit loop's \<^verbatim>\<open>try\<close> block; any exception moves on to the next selector.\<close>

definition try_submit :: "('w, 'e) browser \<Rightarrow> 'w env \<Rightarrow> string \<Rightarrow> (outcome, unit, 'w) stmt" where
  "try_submit B E selector =
     and_then (act (wait_until B 15 Presence_of_element_located
                      (if starts_with ''//'' selector then By_XPATH else By_CSS_SELECTOR) selector))
       (\<lambda>submit_button.
     and_then (act (execute_script B ''arguments[0].scrollIntoView({block: 'center'});''
                      [submit_button])) (\<lambda>_.
     and_then (effect (sleep E 500)) (\<lambda>_.
     try_except
       (and_then (act (el_click B submit_button)) (\<lambda>_.
        effect (logger E INFO ''Clicked submit button using regular click'')))
       (\<lambda>_. and_then (effect (logger E INFO ''Regular click failed, using JavaScript click''))
               (\<lambda>_. act (execute_script B click_script [submit_button]))))))"

fun submit_loop :: "('w, 'e) browser \<Rightarrow> 'w env \<Rightarrow> string list \<Rightarrow> 'w \<Rightarrow> bool \<times> 'w" where
  "submit_loop B E [] w = (False, w)"
| "submit_loop B E (selector # rest) w =
     (case try_submit B E selector w of
        (Next u, w') \<Rightarrow> (True, w')
      | (Raise (NoSuchElementException x), w') \<Rightarrow> submit_loop B E rest w'
      | (Raise (TimeoutException x), w') \<Rightarrow> submit_loop B E rest w'
      | (Raise e, w') \<Rightarrow>
          submit_loop B E rest
            (logger E DEBUG (''Error with selector '' @ selector @ '': '' @ exn_text e) w')
      | (Return r, w') \<Rightarrow> (True, w'))"

text \<open>Step 4: submit the form.\<close>

definition submit_form :: "('w, 'e) browser \<Rightarrow> 'w env \<Rightarrow> (outcome, unit, 'w) stmt" where
  "submit_form B E w =
     (case submit_loop B E submit_selectors w of
        (submitted, w') \<Rightarrow>
          if \<not> submitted
          then (Return \<lparr>success = False, message = ''Could not find or click submit button''\<rparr>, w')
          else (Next (), sleep E 2000 w'))"

definition success_indicators :: "string list" where
  "success_indicators =
     [''//div[@id='_activities_WAR_northstarportlet_:activityForm:activityMessage']''
        @ ''//label[contains(@class, 'portlet-msg-success')]'',
      ''//label[contains(text(), 'Reservation created successfully')]'',
      ''//label[contains(@class, 'activity-message') and contains(text(), 'successfully')]'',
      ''//div[contains(@class, 'ui-messages-info')]'',
      ''//div[contains(@class, 'ui-growl-item')]'']"

definition error_indicators :: "string list" where
  "error_indicators =
     [''//div[contains(@class, 'ui-messages-error')]'',
      ''//div[contains(@class, 'ui-message-error')]'',
      ''//div[contains(@class, 'ui-growl-error')]'',
      ''//div[contains(text(), 'error')]'',
      ''//div[contains(text(), 'unavailable')]'',
      ''//div[contains(text(), 'already booked')]'']"

text \<open>
  What one pass of an indicator loop's \<^verbatim>\<open>try\<close> block sees of an indicator on the page:
  no element (\<^verbatim>\<open>NoSuchElementException\<close>, the one exception the loop catches), an
  element that is not displayed, a displayed element with its text, or another exception.
\<close>

datatype probe = Absent | Hidden | Visible string | Faulty exn

definition no_such_or_faulty :: "exn \<Rightarrow> probe" where
  "no_such_or_faulty e = (case e of NoSuchElementException x \<Rightarrow> Absent | _ \<Rightarrow> Faulty e)"

definition probe_indicator :: "('w, 'e) browser \<Rightarrow> 'w \<Rightarrow> string \<Rightarrow> probe" where
  "probe_indicator B w indicator =
     (case find_element B By_XPATH indicator w of
        Inl e \<Rightarrow> no_such_or_faulty e
      | Inr element \<Rightarrow>
          (case el_is_displayed B element w of
             Inl e \<Rightarrow> no_such_or_faulty e
           | Inr False \<Rightarrow> Hidden
           | Inr True \<Rightarrow>
               (case el_text B element w of
                  Inl e \<Rightarrow> no_such_or_faulty e
                | Inr t \<Rightarrow> Visible t)))"

text \<open>An indicator loop: the text of the first displayed match, or \<open>None\<close> at the end of the list.\<close>

fun scan_indicators :: "('w, 'e) browser \<Rightarrow> 'w \<Rightarrow> string list \<Rightarrow> exn + string option" where
  "scan_indicators B w [] = Inr None"
| "scan_indicators B w (indicator # rest) =
     (case probe_indicator B w indicator of
        Absent \<Rightarrow> scan_indicators B w rest
      | Hidden \<Rightarrow> scan_indicators B w rest
      | Visible t \<Rightarrow> Inr (Some t)
      | Faulty e \<Rightarrow> Inl e)"

text \<open>Step 5: read the outcome off the page.\<close>

definition detect_outcome ::
  "('w, 'e) browser \<Rightarrow> string \<Rightarrow> string \<Rightarrow> (outcome, unit, 'w) stmt" where
  "detect_outcome B date time_slot w =
     (case scan_indicators B w success_indicators of
        Inl e \<Rightarrow> (Raise e, w)
      | Inr (Some message_text) \<Rightarrow>
          (Return \<lparr>success = True,
                   message = ''Booking confirmed for '' @ date @ '' at '' @ time_slot @ '': ''
                             @ message_text\<rparr>, w)
      | Inr None \<Rightarrow>
          (case scan_indicators B w error_indicators of
             Inl e \<Rightarrow> (Raise e, w)
           | Inr (Some error_text) \<Rightarrow>
               (Return \<lparr>success = False, message = ''Booking failed: '' @ error_text\<rparr>, w)
           | Inr None \<Rightarrow>
               (Return \<lparr>success = False,
                        message = ''Could not determine booking status - no clear success or ''
                          @ ''error message found. Please verify manually.''\<rparr>, w)))"

text \<open>The \<^verbatim>\<open>try\<close> block of \<^verbatim>\<open>make_booking\<close>.\<close>

definition make_booking_body ::
  "('w, 'e) browser \<Rightarrow> 'w env \<Rightarrow> config \<Rightarrow> string \<Rightarrow> string \<Rightarrow> string option \<Rightarrow> int
    \<Rightarrow> (outcome, unit, 'w) stmt" where
  "make_booking_body B E cfg date time_slot court_pref duration_minutes =
     and_then (select_date B E cfg date) (\<lambda>_.
     and_then (open_entry B E) (\<lambda>_.
     and_then (effect (sleep E 5000)) (\<lambda>_.
     and_then (fill_form B E time_slot court_pref duration_minutes) (\<lambda>_.
     and_then (submit_form B E) (\<lambda>_.
     detect_outcome B date time_slot)))))"

text \<open>The \<^verbatim>\<open>except Exception\<close> handler of \<^verbatim>\<open>make_booking\<close>.\<close>

definition booking_error :: "'w env \<Rightarrow> exn \<Rightarrow> 'w \<Rightarrow> outcome \<times> 'w" where
  "booking_error E e w =
     (\<lparr>success = False, message = ''Booking error: '' @ exn_text e\<rparr>,
      logger E ERROR (format_exc E e) (logger E ERROR (''Booking failed: '' @ exn_text e) w))"

definition no_driver_error :: exn where
  "no_driver_error = OtherException (sq @ ''NoneType'' @ sq @ '' object has no attribute '' @ sq @ ''get'' @ sq)"

text \<open>
  \<^verbatim>\<open>make_booking\<close>. Without a driver the first statement of the block raises
  \<^verbatim>\<open>AttributeError\<close>, which the handler turns into a result like any other exception.
\<close>

definition make_booking ::
  "('w, 'e) browser \<Rightarrow> 'w env \<Rightarrow> config \<Rightarrow> string \<Rightarrow> string \<Rightarrow> string option \<Rightarrow> int
    \<Rightarrow> bool \<Rightarrow> 'w \<Rightarrow> (exn + outcome) \<times> bool \<times> 'w" where
  "make_booking B E cfg date time_slot court_pref duration_minutes drv w =
     (case (if \<not> drv then (Raise no_driver_error, w)
            else make_booking_body B E cfg date time_slot court_pref duration_minutes w) of
        (Raise e, w') \<Rightarrow> (case booking_error E e w' of (r, w'') \<Rightarrow> (Inr r, drv, w''))
      | (Return r, w') \<Rightarrow> (Inr r, drv, w')
      | (Next u, w') \<Rightarrow> (Inr \<lparr>success = False, message = []\<rparr>, drv, w'))"

section \<open>The batch run (scheduler.py)\<close>

text \<open>
  The scheduler uses the scraper through its constructor and three methods only. The model
  takes them as a record, with \<open>'s\<close> the scraper object's own state, so that what is proved
  of the batch run holds for every behaviour of the scraper, raising included;
  \<open>booking_scraper\<close> is the scraper the code constructs.
\<close>

record ('s, 'w) scraper =
  sc_new :: 's
  sc_login :: "'s \<Rightarrow> 'w \<Rightarrow> (exn + bool) \<times> 's \<times> 'w"
  sc_make_booking ::
    "string \<Rightarrow> string \<Rightarrow> string option \<Rightarrow> int \<Rightarrow> 's \<Rightarrow> 'w \<Rightarrow> (exn + outcome) \<times> 's \<times> 'w"
  sc_close :: "'s \<Rightarrow> 'w \<Rightarrow> (exn + unit) \<times> 's \<times> 'w"

definition booking_scraper :: "('w, 'e) browser \<Rightarrow> 'w env \<Rightarrow> config \<Rightarrow> (bool, 'w) scraper" where
  "booking_scraper B E cfg =
     \<lparr>sc_new = False, sc_login = login B E cfg, sc_make_booking = make_booking B E cfg,
      sc_close = close B\<rparr>"

text \<open>
  The calls a batch run makes to the scraper and to the bot, in order: the log of what was
  attempted. A \<open>Called_login\<close> carries what the call gave back, a \<open>Called_make_booking\<close> the
  request id, the arguments and what the call gave back.
\<close>

datatype event =
    Called_login "exn + bool"
  | Called_make_booking nat string string "string option" int "exn + outcome"
  | Called_send_message string string
  | Called_close

record ('s, 'w) run_state =
  st_db :: database
  st_scraper :: 's
  st_world :: 'w
  st_trace :: "event list"

definition cross_mark :: string where
  "cross_mark = [CHR 0xE2, CHR 0x9D, CHR 0x8C]"

definition check_mark :: string where
  "check_mark = [CHR 0xE2, CHR 0x9C, CHR 0x85]"

text \<open>
  \<^verbatim>\<open>try: bot.send_message(chat_id, text) except Exception as e: logger.error(...)\<close>:
  a failed delivery is logged and nothing more.
\<close>

definition notify ::
  "'w env \<Rightarrow> string \<Rightarrow> string \<Rightarrow> string \<Rightarrow> ('s, 'w) run_state \<Rightarrow> ('s, 'w) run_state" where
  "notify E cid txt log_prefix st =
     (case send_message E cid txt (st_world st) of
        (Inl e, w') \<Rightarrow>
          st\<lparr>st_world := logger E ERROR (log_prefix @ exn_text e) w',
             st_trace := st_trace st @ [Called_send_message cid txt]\<rparr>
      | (Inr u, w') \<Rightarrow>
          st\<lparr>st_world := w', st_trace := st_trace st @ [Called_send_message cid txt]\<rparr>)"

definition set_status ::
  "'w env \<Rightarrow> nat \<Rightarrow> string \<Rightarrow> string \<Rightarrow> ('s, 'w) run_state \<Rightarrow> ('s, 'w) run_state" where
  "set_status E rid st_name msg st =
     st\<lparr>st_db := update_request_status (st_db st) rid st_name (Some msg)
                     (now_isoformat E (st_world st))\<rparr>"

definition login_error_msg :: string where
  "login_error_msg = ''Failed to login to booking website''"

text \<open>The body of the loop that runs when login has failed.\<close>

definition fail_request :: "'w env \<Rightarrow> request \<Rightarrow> ('s, 'w) run_state \<Rightarrow> ('s, 'w) run_state" where
  "fail_request E req st =
     notify E (chat_id req)
       (cross_mark @ '' Booking request #'' @ show_nat (req_id req) @ '' failed: '' @ login_error_msg)
       ''Failed to send notification: ''
       (set_status E (req_id req) ''failed'' login_error_msg st)"

text \<open>The body of the loop over the requests: its \<^verbatim>\<open>try\<close> block and its handler.\<close>

definition booked ::
  "'w env \<Rightarrow> request \<Rightarrow> outcome \<Rightarrow> ('s, 'w) run_state \<Rightarrow> ('s, 'w) run_state" where
  "booked E req result st =
     (let st1 = set_status E (req_id req) (if success result then ''completed'' else ''failed'')
                  (message result) st;
          st2 = notify E (chat_id req)
                  ((if success result then check_mark else cross_mark) @ '' Booking request #''
                     @ show_nat (req_id req) @ '': '' @ message result)
                  (''Failed to send notification to '' @ chat_id req @ '': '') st1
      in st2\<lparr>st_world := sleep E 2000 (st_world st2)\<rparr>)"

definition booking_raised ::
  "'w env \<Rightarrow> request \<Rightarrow> exn \<Rightarrow> ('s, 'w) run_state \<Rightarrow> ('s, 'w) run_state" where
  "booking_raised E req e st =
     (let st1 = st\<lparr>st_world := logger E ERROR (''Error processing request #''
                    @ show_nat (req_id req) @ '': '' @ exn_text e) (st_world st)\<rparr>;
          st2 = set_status E (req_id req) ''failed'' (''Error: '' @ exn_text e) st1
      in notify E (chat_id req)
           (cross_mark @ '' Booking request #'' @ show_nat (req_id req) @ '' failed: '' @ exn_text e)
           ''Failed to send error notification: '' st2)"

definition process_request ::
  "'w env \<Rightarrow> ('s, 'w) scraper \<Rightarrow> request \<Rightarrow> ('s, 'w) run_state \<Rightarrow> ('s, 'w) run_state" where
  "process_request E S req st =
     (let w1 = logger E INFO (''Processing request #'' @ show_nat (req_id req) @ '': ''
                  @ requested_date req @ '' at '' @ requested_time req) (st_world st)
      in case sc_make_booking S (requested_date req) (requested_time req) (court_preference req)
                (duration req) (st_scraper st) w1 of
           (res, s', w') \<Rightarrow>
             (let st' = st\<lparr>st_scraper := s', st_world := w',
                           st_trace := st_trace st @ [Called_make_booking (req_id req)
                              (requested_date req) (requested_time req) (court_preference req)
                              (duration req) res]\<rparr>
              in case res of
                   Inr result \<Rightarrow> booked E req result st'
                 | Inl e \<Rightarrow> booking_raised E req e st'))"

text \<open>
  The \<^verbatim>\<open>try\<close> block of \<^verbatim>\<open>process_pending_requests\<close>: \<open>Raise\<close> when
  \<^verbatim>\<open>login\<close> raises, \<open>Return\<close> after a failed login, \<open>Next\<close> after the loop.
\<close>

definition run_session ::
  "'w env \<Rightarrow> ('s, 'w) scraper \<Rightarrow> request list \<Rightarrow> ('s, 'w) run_state
    \<Rightarrow> (unit, unit) flow \<times> ('s, 'w) run_state" where
  "run_session E S requests st =
     (case sc_login S (st_scraper st) (st_world st) of
        (res, s', w') \<Rightarrow>
          (let st1 = st\<lparr>st_scraper := s', st_world := w',
                        st_trace := st_trace st @ [Called_login res]\<rparr>
           in case res of
                Inl e \<Rightarrow> (Raise e, st1)
              | Inr False \<Rightarrow>
                  (Return (),
                   fold (fail_request E) requests
                     (st1\<lparr>st_world := logger E ERROR login_error_msg (st_world st1)\<rparr>))
              | Inr True \<Rightarrow> (Next (), fold (process_request E S) requests st1)))"

text \<open>The lead time: bookings open two days ahead. Past the last date Python raises.\<close>

definition eligible_date :: "civil_date \<Rightarrow> exn + civil_date" where
  "eligible_date t =
     (let d = next_day (next_day t)
      in if 9999 < year d then Inl (OtherException ''date value out of range'') else Inr d)"

definition batch_today :: "'w env \<Rightarrow> 'w \<Rightarrow> civil_date" where
  "batch_today E w = today E (logger E INFO ''Processing pending booking requests...'' w)"

text \<open>
  \<^verbatim>\<open>process_pending_requests\<close>: the result (an exception that leaves the method, or
  nothing), the store, the world and the calls made. \<^verbatim>\<open>scraper.close()\<close> runs in the
  \<^verbatim>\<open>finally\<close> clause, and an exception of its own replaces the pending one.
\<close>

definition process_pending_requests ::
  "'w env \<Rightarrow> ('s, 'w) scraper \<Rightarrow> database \<Rightarrow> 'w \<Rightarrow> (exn + unit) \<times> database \<times> 'w \<times> event list" where
  "process_pending_requests E S db w =
     (let w0 = logger E INFO ''Processing pending booking requests...'' w
      in case eligible_date (today E w0) of
           Inl e \<Rightarrow> (Inl e, db, w0, [])
         | Inr target_date_obj \<Rightarrow>
             (let target_date = strftime_Ymd target_date_obj;
                  requests = get_requests_for_date db target_date
              in if requests = []
                 then (Inr (), db, logger E INFO (''No pending requests for '' @ target_date) w0, [])
                 else
                   (let w1 = logger E INFO (''Found '' @ show_nat (length requests)
                               @ '' pending request(s) for '' @ target_date) w0
                    in case run_session E S requests
                              \<lparr>st_db = db, st_scraper = sc_new S, st_world = w1, st_trace = []\<rparr> of
                         (fl, st) \<Rightarrow>
                           (case sc_close S (st_scraper st) (st_world st) of
                              (Inl e, s', w') \<Rightarrow> (Inl e, st_db st, w', st_trace st @ [Called_close])
                            | (Inr u, s', w') \<Rightarrow>
                                (case fl of
                                   Raise e \<Rightarrow> (Inl e, st_db st, w', st_trace st @ [Called_close])
                                 | Return r \<Rightarrow> (Inr (), st_db st, w', st_trace st @ [Called_close])
                                 | Next r \<Rightarrow>
                                     (Inr (), st_db st,
                                      logger E INFO ''Finished processing booking requests'' w',
                                      st_trace st @ [Called_close]))))))"

section \<open>Example inputs\<close>

definition example_db :: database where
  "example_db =
     snd (add_request init_db ''u1'' ''c1'' ''2024-12-25'' ''10:00'' None 90 ''2024-12-20T08:00:00'')"



definition example_ops :: "repo_op list" where
  "example_ops =
     [Create ''u1'' ''c1'' ''2024-12-25'' ''10:00'' None 90 ''2024-12-20T08:00:00'',
      SetStatus 1 ''failed'' (Some ''Booking failed: unavailable'') ''2024-12-23T07:00:09'',
      Cancel 1 ''u1'',
      Create ''u2'' ''c2'' ''2024-12-25'' ''11:00'' (Some ''Court 2'') 60 ''2024-12-23T09:00:00'']"




text \<open>
  A browser over a fixed page, for the examples: the world is the list of logged messages, an
  element handle is its locator. Waits time out on the locators in \<open>missing\<close>; an XPath
  lookup finds the locators that \<open>shown\<close> gives a text, displayed with that text.
\<close>

definition example_env :: "(string list) env" where
  "example_env =
     \<lparr>sleep = (\<lambda>ms w. w),
      logger = (\<lambda>lvl msg w. w @ [msg]),
      today = (\<lambda>w. \<lparr>year = 2024, month = 12, day = 23\<rparr>),
      now_isoformat = (\<lambda>w. ''2024-12-23T07:00:05''),
      format_exc = exn_text,
      send_message = (\<lambda>cid txt w. (Inr (), w))\<rparr>"

definition page_browser :: "string list \<Rightarrow> (string \<times> string) list \<Rightarrow> (string list, string) browser" where
  "page_browser missing shown =
     \<lparr>new_chrome = (\<lambda>w. (Inr (), w)),
      execute_script = (\<lambda>script args w. (Inr (), w)),
      drv_get = (\<lambda>url w. (Inr (), w)),
      drv_quit = (\<lambda>w. (Inr (), w)),
      wait_until = (\<lambda>t c how sel w.
        if sel \<in> set missing then (Inl (TimeoutException ''Message: ''), w) else (Inr sel, w)),
      find_element = (\<lambda>how sel w.
        if how = By_XPATH \<and> map_of shown sel = None \<or> sel \<in> set missing
        then Inl (NoSuchElementException ''Message: no such element'')
        else Inr sel),
      current_url = (\<lambda>w. Inr ''https://portal.example/home''),
      el_click = (\<lambda>el w. (Inr (), w)),
      el_clear = (\<lambda>el w. (Inr (), w)),
      el_send_keys = (\<lambda>el keys w. (Inr (), w)),
      el_is_displayed = (\<lambda>el w. Inr True),
      el_text = (\<lambda>el w. case map_of shown el of Some t \<Rightarrow> Inr t | None \<Rightarrow> Inr [])\<rparr>"

definition example_config :: config where
  "example_config = \<lparr>booking_url = ''https://portal.example/'', username = ''member'', password = ''secret''\<rparr>"

definition confirmation_page :: "(string \<times> string) list" where
  "confirmation_page = [(success_indicators ! 1, ''Reservation created successfully'')]"



text \<open>
  How the scheduler records what \<^verbatim>\<open>make_booking\<close> gave back: the status and the result
  message stored for a result or an exception, the call of \<^verbatim>\<open>make_booking\<close> for a
  request as it appears in the log of a run, and the row of a request failed by a failed login.
\<close>

definition status_for :: "exn + outcome \<Rightarrow> string" where
  "status_for res =
     (case res of Inr result \<Rightarrow> if success result then ''completed'' else ''failed''
      | Inl e \<Rightarrow> ''failed'')"

definition message_for :: "exn + outcome \<Rightarrow> string" where
  "message_for res =
     (case res of Inr result \<Rightarrow> message result | Inl e \<Rightarrow> ''Error: '' @ exn_text e)"

fun is_make_booking :: "event \<Rightarrow> bool" where
  "is_make_booking (Called_make_booking rid d t c n res) = True"
| "is_make_booking ev = False"

definition booking_call :: "request \<Rightarrow> exn + outcome \<Rightarrow> event" where
  "booking_call req res =
     Called_make_booking (req_id req) (requested_date req) (requested_time req)
       (court_preference req) (duration req) res"


definition login_failed_notice :: "request \<Rightarrow> event" where
  "login_failed_notice req =
     Called_send_message (chat_id req)
       (cross_mark @ '' Booking request #'' @ show_nat (req_id req)
          @ '' failed: Failed to login to booking website'')"

fun is_login :: "event \<Rightarrow> bool" where
  "is_login (Called_login res) = True"
| "is_login ev = False"

text \<open>
  A store with five requests: three pending for 25 December 2024, one pending for the day
  after, one for the 25th cancelled by its requester. The example environment's clock reads
  23 December 2024. The scraper of the examples is a stub: its login returns what it is told;
  its \<^verbatim>\<open>make_booking\<close> confirms the 10:00 slot, finds no entry slot for 11:00 and raises
  for any other time.
\<close>

definition batch_ops :: "repo_op list" where
  "batch_ops =
     [Create ''u1'' ''c1'' ''2024-12-25'' ''10:00'' None 90 ''2024-12-20T08:00:00'',
      Create ''u2'' ''c2'' ''2024-12-25'' ''11:00'' (Some ''Outdoor Court 4'') 60 ''2024-12-21T09:30:00'',
      Create ''u1'' ''c1'' ''2024-12-25'' ''14:05'' None 90 ''2024-12-21T10:00:00'',
      Create ''u1'' ''c1'' ''2024-12-26'' ''09:00'' None 90 ''2024-12-21T10:05:00'',
      Create ''u3'' ''c3'' ''2024-12-25'' ''08:00'' None 30 ''2024-12-22T08:00:00'',
      Cancel 5 ''u3'']"

definition batch_db :: database where
  "batch_db = run_ops batch_ops init_db"

definition stub_scraper :: "bool \<Rightarrow> (unit, string list) scraper" where
  "stub_scraper login_ok =
     \<lparr>sc_new = (),
      sc_login = (\<lambda>s w. (Inr login_ok, s, w)),
      sc_make_booking = (\<lambda>date time_slot court_pref duration_minutes s w.
        (if time_slot = ''10:00''
         then Inr \<lparr>success = True, message = ''Booking confirmed for '' @ date @ '' at 10:00: ok''\<rparr>
         else if time_slot = ''11:00''
         then Inr \<lparr>success = False, message = ''Entry slot (ID 11 at 06:00 AM) not found in grid.''\<rparr>
         else Inl (OtherException ''session deleted''), s, w)),
      sc_close = (\<lambda>s w. (Inr (), s, w))\<rparr>"

definition locked_out_run :: "(exn + unit) \<times> database \<times> string list \<times> event list" where
  "locked_out_run = process_pending_requests example_env (stub_scraper False) batch_db []"

definition logged_in_run :: "(exn + unit) \<times> database \<times> string list \<times> event list" where
  "logged_in_run = process_pending_requests example_env (stub_scraper True) batch_db []"

section \<open>Properties of the request store\<close>

lemma find_id_map:
  "(\<And>r. req_id (f r) = req_id r) \<Longrightarrow>
   find (\<lambda>r. req_id r = rid) (map f xs) = map_option f (find (\<lambda>r. req_id r = rid) xs)"
  by (induction xs) auto

lemma find_append_Some: "find P xs = Some r \<Longrightarrow> find P (xs @ ys) = Some r"
  by (induction xs) (auto split: if_splits)

lemma get_request_update:
  "get_request (update_request_status db rid st msg now) rid' =
     map_option (\<lambda>r. if req_id r = rid then set_status_row st now msg r else r) (get_request db rid')"
  unfolding get_request_def update_request_status_def
  by (simp add: find_id_map set_status_row_def)

lemma get_request_cancel:
  "get_request (snd (cancel_request db rid uid)) rid' =
     map_option (\<lambda>r. if cancel_hit rid uid r then r\<lparr>status := ''cancelled''\<rparr> else r) (get_request db rid')"
  unfolding get_request_def cancel_request_def
  by (simp add: find_id_map Let_def)

lemma get_request_add_Some:
  "get_request db rid = Some r \<Longrightarrow>
   get_request (snd (add_request db uid cid rdate rtime court dur now)) rid = Some r"
  unfolding get_request_def add_request_def
  by (simp add: Let_def find_append_Some)

lemma find_append_None: "find P xs = None \<Longrightarrow> find P (xs @ ys) = find P ys"
  by (induction xs) (auto split: if_splits)

lemma get_request_id: "get_request db rid = Some r \<Longrightarrow> req_id r = rid"
  unfolding get_request_def by (auto simp: find_Some_iff)

lemma get_request_add_None:
  "get_request db rid = None \<Longrightarrow>
   get_request (snd (add_request db uid cid rdate rtime court dur now)) rid = Some r' \<Longrightarrow>
   status r' = ''pending''"
  unfolding get_request_def add_request_def
  by (auto simp: Let_def find_append_None split: if_splits)

lemma step_keeps_terminal:
  assumes "get_request db rid = Some r" "status r \<noteq> ''pending''" "op_in_contract op"
  shows "\<exists>r'. get_request (apply_op op db) rid = Some r' \<and> status r' \<noteq> ''pending''"
  using assms
  by (cases op) (auto simp: get_request_update get_request_cancel get_request_add_Some
      set_status_row_def cancel_hit_def)

lemma run_keeps_terminal:
  "list_all op_in_contract ops \<Longrightarrow> get_request db rid = Some r \<Longrightarrow> status r \<noteq> ''pending'' \<Longrightarrow>
   \<exists>r'. get_request (run_ops ops db) rid = Some r' \<and> status r' \<noteq> ''pending''"
proof (induction ops arbitrary: db r)
  case Nil
  then show ?case by (simp add: run_ops_def)
next
  case (Cons a ops)
  from Cons.prems obtain r1 where
    "get_request (apply_op a db) rid = Some r1" "status r1 \<noteq> ''pending''"
    using step_keeps_terminal[of db rid r a] by auto
  with Cons.IH[of "apply_op a db" r1] Cons.prems(1) show ?case
    by (simp add: run_ops_def)
qed

lemma step_cancelled_only_by_owner:
  assumes "op_in_contract op" "get_request db rid = Some r"
    "get_request (apply_op op db) rid = Some r'" "status r' = ''cancelled''" "status r \<noteq> ''cancelled''"
  shows "status r = ''pending'' \<and> op = Cancel rid (user_id r)"
  using assms
  by (cases op) (auto simp: get_request_update get_request_cancel get_request_add_Some
      set_status_row_def cancel_hit_def dest: get_request_id split: if_splits)

lemma step_created_pending:
  assumes "get_request db rid = None" "get_request (apply_op op db) rid = Some r'"
  shows "status r' = ''pending''"
  using assms
  by (cases op) (auto simp: get_request_update get_request_cancel get_request_add_None)






lemma run_ops_append: "run_ops (xs @ ys) db = run_ops ys (run_ops xs db)"
  by (simp add: run_ops_def)

lemma run_ops_Cons: "run_ops (x # xs) db = run_ops xs (apply_op x db)"
  by (simp add: run_ops_def)

lemma step_keeps_owner:
  assumes "get_request db rid = Some r" "get_request (apply_op op db) rid = Some r'"
  shows "user_id r' = user_id r"
  using assms
  by (cases op) (auto simp: get_request_update get_request_cancel get_request_add_Some
      set_status_row_def split: if_splits)

text \<open>
  Claim C5. Along every history of repository operations (create, status update within the
  interface's contract, cancel), started from any store: a request that has left
  \<^verbatim>\<open>pending\<close> is never \<^verbatim>\<open>pending\<close> again; a request becomes
  \<^verbatim>\<open>cancelled\<close> only from \<^verbatim>\<open>pending\<close> and only by a
  \<^verbatim>\<open>cancel_request\<close> of its own requester, whose identity no operation changes;
  and a request that appears is \<^verbatim>\<open>pending\<close>.
\<close>

theorem status_transitions_monotonic:
  assumes "list_all op_in_contract ops"
  shows "(\<forall>pre post rid r. ops = pre @ post \<and> get_request (run_ops pre db) rid = Some r
            \<and> status r \<noteq> ''pending''
          \<longrightarrow> (\<exists>r'. get_request (run_ops ops db) rid = Some r' \<and> status r' \<noteq> ''pending''))
       \<and> (\<forall>pre op post rid r r'. ops = pre @ op # post
            \<and> get_request (run_ops pre db) rid = Some r
            \<and> get_request (run_ops (pre @ [op]) db) rid = Some r'
          \<longrightarrow> user_id r' = user_id r
              \<and> (status r' = ''cancelled'' \<and> status r \<noteq> ''cancelled''
                   \<longrightarrow> status r = ''pending'' \<and> op = Cancel rid (user_id r)))
       \<and> (\<forall>pre op post rid r'. ops = pre @ op # post
            \<and> get_request (run_ops pre db) rid = None
            \<and> get_request (run_ops (pre @ [op]) db) rid = Some r'
          \<longrightarrow> status r' = ''pending'')"
proof (intro conjI allI impI)
  fix pre post rid r
  assume h: "ops = pre @ post \<and> get_request (run_ops pre db) rid = Some r \<and> status r \<noteq> ''pending''"
  with assms have "list_all op_in_contract post" by simp
  with h show "\<exists>r'. get_request (run_ops ops db) rid = Some r' \<and> status r' \<noteq> ''pending''"
    using run_keeps_terminal[of post "run_ops pre db" rid r] by (simp add: run_ops_append)
next
  fix pre op post rid r r'
  assume h: "ops = pre @ op # post \<and> get_request (run_ops pre db) rid = Some r
            \<and> get_request (run_ops (pre @ [op]) db) rid = Some r'"
  then show "user_id r' = user_id r"
    using step_keeps_owner[of "run_ops pre db" rid r op r']
    by (simp add: run_ops_append run_ops_Cons run_ops_def)
next
  fix pre op post rid r r'
  assume h: "ops = pre @ op # post \<and> get_request (run_ops pre db) rid = Some r
            \<and> get_request (run_ops (pre @ [op]) db) rid = Some r'"
  assume c: "status r' = ''cancelled'' \<and> status r \<noteq> ''cancelled''"
  from h assms have "op_in_contract op" by simp
  with h c show "status r = ''pending''"
    using step_cancelled_only_by_owner[of op "run_ops pre db" rid r r']
    by (simp add: run_ops_append run_ops_def)
next
  fix pre op post rid r r'
  assume h: "ops = pre @ op # post \<and> get_request (run_ops pre db) rid = Some r
            \<and> get_request (run_ops (pre @ [op]) db) rid = Some r'"
  assume c: "status r' = ''cancelled'' \<and> status r \<noteq> ''cancelled''"
  from h assms have "op_in_contract op" by simp
  with h c show "op = Cancel rid (user_id r)"
    using step_cancelled_only_by_owner[of op "run_ops pre db" rid r r']
    by (simp add: run_ops_append run_ops_def)
next
  fix pre op post rid r'
  assume h: "ops = pre @ op # post \<and> get_request (run_ops pre db) rid = None
            \<and> get_request (run_ops (pre @ [op]) db) rid = Some r'"
  then show "status r' = ''pending''"
    using step_created_pending[of "run_ops pre db" rid op r']
    by (simp add: run_ops_append run_ops_def)
qed

text \<open>
  The theorem at a history of four operations: request 1 is created, fails, is then cancelled
  by its owner (which is refused), and a second request is created.
\<close>

theorem status_transitions_monotonic_witness:
  "list_all op_in_contract example_ops
   \<and> (\<exists>r. get_request (run_ops (take 2 example_ops) init_db) 1 = Some r \<and> status r = ''failed'')
   \<and> (\<exists>r'. get_request (run_ops example_ops init_db) 1 = Some r' \<and> status r' \<noteq> ''pending'')"
proof -
  have c: "list_all op_in_contract example_ops"
    by (simp add: example_ops_def)
  have s: "example_ops = take 2 example_ops @ drop 2 example_ops"
    by simp
  have g: "\<exists>r. get_request (run_ops (take 2 example_ops) init_db) 1 = Some r \<and> status r = ''failed''"
    by (simp add: example_ops_def run_ops_def add_request_def init_db_def next_rowid_def
        update_request_status_def set_status_row_def get_request_def)
  then obtain r where r: "get_request (run_ops (take 2 example_ops) init_db) 1 = Some r"
    "status r = ''failed''" by blast
  then have "status r \<noteq> ''pending''" by simp
  with r(1) s have "\<exists>r'. get_request (run_ops example_ops init_db) 1 = Some r' \<and> status r' \<noteq> ''pending''"
    using status_transitions_monotonic[OF c, of init_db] by blast
  with c g show ?thesis by blast
qed

text \<open>
  Cancellation writes the status column only: after the owner cancels the pending request of
  the example store, the row is \<^verbatim>\<open>cancelled\<close> and its processed timestamp is
  still null.
\<close>

theorem cancellation_leaves_processed_at_unset:
  "map status (rows (snd (cancel_request example_db 1 ''u1''))) = [''cancelled'']
   \<and> map processed_at (rows (snd (cancel_request example_db 1 ''u1''))) = [None]"
  by (simp add: example_db_def add_request_def init_db_def next_rowid_def cancel_request_def
      cancel_hit_def)

text \<open>
  Claim C9, as the code has it. \<^verbatim>\<open>update_request_status\<close> (the transitions to
  \<^verbatim>\<open>completed\<close> and \<^verbatim>\<open>failed\<close>) sets the processed timestamp of the
  request it addresses, together with the status and the result message;
  \<^verbatim>\<open>cancel_request\<close> leaves the processed timestamp of every row as it was.
\<close>

theorem processed_at_set_by_update_only:
  "(\<forall>r. get_request db rid = Some r \<longrightarrow>
       get_request (update_request_status db rid st msg now) rid
         = Some (r\<lparr>status := st, processed_at := Some now, result_message := msg\<rparr>))
   \<and> (\<forall>r \<in> set (rows (update_request_status db rid st msg now)).
         req_id r = rid \<longrightarrow> status r = st \<and> processed_at r = Some now)
   \<and> map processed_at (rows (snd (cancel_request db rid uid))) = map processed_at (rows db)"
proof (intro conjI allI impI ballI)
  fix r assume g: "get_request db rid = Some r"
  then have "req_id r = rid" by (rule get_request_id)
  with g show "get_request (update_request_status db rid st msg now) rid
         = Some (r\<lparr>status := st, processed_at := Some now, result_message := msg\<rparr>)"
    by (simp add: get_request_update set_status_row_def)
next
  fix r assume m: "r \<in> set (rows (update_request_status db rid st msg now))" and i: "req_id r = rid"
  from m obtain q where q: "q \<in> set (rows db)"
      "r = (if req_id q = rid then set_status_row st now msg q else q)"
    unfolding update_request_status_def by auto
  have "req_id q = rid"
  proof (rule ccontr)
    assume "req_id q \<noteq> rid"
    with q(2) i show False by simp
  qed
  with q(2) have "r = set_status_row st now msg q" by simp
  then show "status r = st" "processed_at r = Some now"
    by (simp_all add: set_status_row_def)
next
  show "map processed_at (rows (snd (cancel_request db rid uid))) = map processed_at (rows db)"
    by (simp add: cancel_request_def Let_def)
qed

text \<open>
  The theorem at the example store: the pending request has no processed timestamp, and
  completing it records one.
\<close>

theorem processed_at_set_by_update_only_witness:
  "(\<exists>r. get_request example_db 1 = Some r \<and> processed_at r = None)
   \<and> (\<exists>r'. get_request (update_request_status example_db 1 ''completed'' (Some ''ok'') ''2024-12-23T07:00:05'') 1
          = Some r' \<and> status r' = ''completed'' \<and> processed_at r' = Some ''2024-12-23T07:00:05'')"
proof -
  have g: "\<exists>r. get_request example_db 1 = Some r \<and> processed_at r = None"
    by (simp add: example_db_def add_request_def init_db_def next_rowid_def get_request_def)
  then obtain r where r: "get_request example_db 1 = Some r" by blast
  show ?thesis
    using g r processed_at_set_by_update_only[of example_db 1 "''completed''" "Some ''ok''"
        "''2024-12-23T07:00:05''" "''u1''"]
    by simp
qed

section \<open>Properties of the time conversion\<close>











text \<open>
  \<^verbatim>\<open>%H\<close> and \<^verbatim>\<open>%M\<close> also accept a single digit, so such an input parses and
  is converted.
\<close>

lemma convert_time_format_one_digit: "convert_time_format ''6:5'' = ''06:05 AM''"
  by (simp add: convert_time_format_def strptime_HM_def match_HM_def re_H_def re_M_def
      re_two_def re_one_def re_lit_def is_digit_def in_range_def digit_val_def strftime_IMp_def
      pad2_def hour12_def am_pm_def digit_char_def)




section \<open>Properties of the browser session\<close>






























lemma select_court_falls_through:
  "fst (select_court B E court_pref w) = Next ()"
  by (simp add: select_court_def continue_def split: option.splits prod.splits)

lemma select_duration_falls_through:
  "fst (select_duration B E duration_minutes w) = Next ()"
  by (simp add: select_duration_def split: prod.splits)

lemma select_court_failed:
  assumes "c \<noteq> []" "select_dropdown_option B E court_label_id c w = (False, w')"
  shows "select_court B E (Some c) w =
           (Next (), sleep E 1000
              (logger E WARNING (''Could not select '' @ c @ '', proceeding with current selection.'') w'))"
  using assms by (simp add: select_court_def)

lemma select_duration_failed:
  assumes "select_dropdown_option B E duration_label_id (show_int d) w = (False, w')"
  shows "select_duration B E d w =
           (Next (), sleep E 1000 (logger E WARNING (''Could not select duration '' @ show_int d) w'))"
  using assms by (simp add: select_duration_def)

lemma select_time_result:
  "select_time B E time_slot w =
     (if fst (select_dropdown_option B E time_label_id (convert_time_format time_slot) w)
      then (Next (), sleep E 1000
              (snd (select_dropdown_option B E time_label_id (convert_time_format time_slot) w)))
      else (Return \<lparr>success = False,
                    message = ''Could not select time '' @ convert_time_format time_slot
                              @ '' in form dropdown.''\<rparr>,
            snd (select_dropdown_option B E time_label_id (convert_time_format time_slot) w)))"
  by (simp add: select_time_def split: prod.splits)

lemma fill_form_time_failed:
  assumes "select_court B E court_pref w = (fl, w1)"
    and "\<not> fst (select_dropdown_option B E time_label_id (convert_time_format time_slot) w1)"
  shows "fst (fill_form B E time_slot court_pref duration_minutes w) =
           Return \<lparr>success = False,
                   message = ''Could not select time '' @ convert_time_format time_slot
                             @ '' in form dropdown.''\<rparr>"
proof -
  from assms(1) have "fl = Next ()"
    using select_court_falls_through[of B E court_pref w] by simp
  with assms show ?thesis
    by (simp add: fill_form_def and_then_def select_time_result)
qed

lemma fill_form_time_selected:
  assumes "select_court B E court_pref w = (fl, w1)"
    and "fst (select_dropdown_option B E time_label_id (convert_time_format time_slot) w1)"
  shows "fst (fill_form B E time_slot court_pref duration_minutes w) = Next ()"
proof -
  from assms(1) have "fl = Next ()"
    using select_court_falls_through[of B E court_pref w] by simp
  with assms show ?thesis
    by (simp add: fill_form_def and_then_def select_time_result select_duration_falls_through
        split: prod.splits)
qed

lemma make_booking_time_failed:
  assumes "select_date B E cfg date w0 = (Next (), w1)"
    and "open_entry B E w1 = (Next (), w2)"
    and "select_court B E court_pref (sleep E 5000 w2) = (fl, w3)"
    and "\<not> fst (select_dropdown_option B E time_label_id (convert_time_format time_slot) w3)"
  shows "fst (make_booking B E cfg date time_slot court_pref duration_minutes True w0) =
           Inr \<lparr>success = False,
                message = ''Could not select time '' @ convert_time_format time_slot
                          @ '' in form dropdown.''\<rparr>"
proof -
  obtain fl' w4 where f: "fill_form B E time_slot court_pref duration_minutes (sleep E 5000 w2) = (fl', w4)"
    by (cases "fill_form B E time_slot court_pref duration_minutes (sleep E 5000 w2)")
  with fill_form_time_failed[OF assms(3,4), of duration_minutes]
  have "fl' = Return \<lparr>success = False,
                message = ''Could not select time '' @ convert_time_format time_slot
                          @ '' in form dropdown.''\<rparr>" by simp
  with f assms(1,2) show ?thesis
    by (simp add: make_booking_def make_booking_body_def and_then_def effect_def)
qed

text \<open>
  Claim C7. In the form stage of \<^verbatim>\<open>make_booking\<close> the court and the duration dropdowns
  never end the attempt: whatever the selection does, the step falls through to the next
  statement, and a failed selection is logged as a warning. The time dropdown is different:
  when its selection fails the form stage, and with it \<^verbatim>\<open>make_booking\<close>, returns the
  failure \<^verbatim>\<open>Could not select time ... in form dropdown.\<close>; when it succeeds the form stage
  is completed whether or not court and duration could be selected.
\<close>

theorem form_population_only_time_is_fatal:
  "fst (select_court B E court_pref w) = Next ()
   \<and> fst (select_duration B E duration_minutes w) = Next ()
   \<and> (\<forall>c w'. c \<noteq> [] \<and> select_dropdown_option B E court_label_id c w = (False, w')
        \<longrightarrow> select_court B E (Some c) w =
              (Next (), sleep E 1000 (logger E WARNING
                 (''Could not select '' @ c @ '', proceeding with current selection.'') w')))
   \<and> (\<forall>w'. select_dropdown_option B E duration_label_id (show_int duration_minutes) w = (False, w')
        \<longrightarrow> select_duration B E duration_minutes w =
              (Next (), sleep E 1000 (logger E WARNING
                 (''Could not select duration '' @ show_int duration_minutes) w')))
   \<and> (\<forall>w1. snd (select_court B E court_pref w) = w1
          \<and> \<not> fst (select_dropdown_option B E time_label_id (convert_time_format time_slot) w1)
        \<longrightarrow> fst (fill_form B E time_slot court_pref duration_minutes w) =
              Return \<lparr>success = False,
                      message = ''Could not select time '' @ convert_time_format time_slot
                                @ '' in form dropdown.''\<rparr>)
   \<and> (\<forall>w1. snd (select_court B E court_pref w) = w1
          \<and> fst (select_dropdown_option B E time_label_id (convert_time_format time_slot) w1)
        \<longrightarrow> fst (fill_form B E time_slot court_pref duration_minutes w) = Next ())
   \<and> (\<forall>w0 w1 w2 w3. select_date B E cfg date w0 = (Next (), w1)
          \<and> open_entry B E w1 = (Next (), w2)
          \<and> snd (select_court B E court_pref (sleep E 5000 w2)) = w3
          \<and> \<not> fst (select_dropdown_option B E time_label_id (convert_time_format time_slot) w3)
        \<longrightarrow> fst (make_booking B E cfg date time_slot court_pref duration_minutes True w0) =
              Inr \<lparr>success = False,
                   message = ''Could not select time '' @ convert_time_format time_slot
                             @ '' in form dropdown.''\<rparr>)"
proof (intro conjI allI impI)
  show "fst (select_court B E court_pref w) = Next ()"
    by (rule select_court_falls_through)
  show "fst (select_duration B E duration_minutes w) = Next ()"
    by (rule select_duration_falls_through)
next
  fix c w'
  assume "c \<noteq> [] \<and> select_dropdown_option B E court_label_id c w = (False, w')"
  then have a: "c \<noteq> []" and b: "select_dropdown_option B E court_label_id c w = (False, w')"
    by simp_all
  from select_court_failed[OF a b]
  show "select_court B E (Some c) w =
              (Next (), sleep E 1000 (logger E WARNING
                 (''Could not select '' @ c @ '', proceeding with current selection.'') w'))" .
next
  fix w'
  assume "select_dropdown_option B E duration_label_id (show_int duration_minutes) w = (False, w')"
  then show "select_duration B E duration_minutes w =
              (Next (), sleep E 1000 (logger E WARNING
                 (''Could not select duration '' @ show_int duration_minutes) w'))"
    by (rule select_duration_failed)
next
  fix w1
  assume h: "snd (select_court B E court_pref w) = w1
          \<and> \<not> fst (select_dropdown_option B E time_label_id (convert_time_format time_slot) w1)"
  then have a: "select_court B E court_pref w = (fst (select_court B E court_pref w), w1)"
    by (simp add: prod_eq_iff)
  from h have b: "\<not> fst (select_dropdown_option B E time_label_id (convert_time_format time_slot) w1)"
    by simp
  from fill_form_time_failed[OF a b]
  show "fst (fill_form B E time_slot court_pref duration_minutes w) =
              Return \<lparr>success = False,
                      message = ''Could not select time '' @ convert_time_format time_slot
                                @ '' in form dropdown.''\<rparr>" .
next
  fix w1
  assume h: "snd (select_court B E court_pref w) = w1
          \<and> fst (select_dropdown_option B E time_label_id (convert_time_format time_slot) w1)"
  then have a: "select_court B E court_pref w = (fst (select_court B E court_pref w), w1)"
    by (simp add: prod_eq_iff)
  from h have b: "fst (select_dropdown_option B E time_label_id (convert_time_format time_slot) w1)"
    by simp
  from fill_form_time_selected[OF a b]
  show "fst (fill_form B E time_slot court_pref duration_minutes w) = Next ()" .
next
  fix w0 w1 w2 w3
  assume h: "select_date B E cfg date w0 = (Next (), w1)
          \<and> open_entry B E w1 = (Next (), w2)
          \<and> snd (select_court B E court_pref (sleep E 5000 w2)) = w3
          \<and> \<not> fst (select_dropdown_option B E time_label_id (convert_time_format time_slot) w3)"
  then have a: "select_date B E cfg date w0 = (Next (), w1)"
    and b: "open_entry B E w1 = (Next (), w2)"
    and c: "select_court B E court_pref (sleep E 5000 w2)
              = (fst (select_court B E court_pref (sleep E 5000 w2)), w3)"
    and d: "\<not> fst (select_dropdown_option B E time_label_id (convert_time_format time_slot) w3)"
    by (simp_all add: prod_eq_iff)
  from make_booking_time_failed[OF a b c d]
  show "fst (make_booking B E cfg date time_slot court_pref duration_minutes True w0) =
              Inr \<lparr>success = False,
                   message = ''Could not select time '' @ convert_time_format time_slot
                             @ '' in form dropdown.''\<rparr>" .
qed

text \<open>
  Two runs of \<^verbatim>\<open>make_booking\<close> on the page that displays the confirmation label. When the
  court and the duration dropdowns cannot be opened the booking is still confirmed; when the
  time dropdown cannot be opened it fails.
\<close>

lemma make_booking_court_and_duration_missing:
  "fst (make_booking (page_browser [court_label_id, duration_label_id] confirmation_page)
          example_env example_config ''2024-12-25'' ''14:05'' (Some ''Outdoor Court 4'') 60 True [])
   = Inr \<lparr>success = True,
           message = ''Booking confirmed for 2024-12-25 at 14:05: Reservation created successfully''\<rparr>"
  by code_simp

lemma make_booking_time_missing:
  "fst (make_booking (page_browser [time_label_id] confirmation_page)
          example_env example_config ''2024-12-25'' ''14:05'' (Some ''Outdoor Court 4'') 60 True [])
   = Inr \<lparr>success = False, message = ''Could not select time 02:05 PM in form dropdown.''\<rparr>"
  by code_simp

lemma example_dropdowns:
  "select_dropdown_option (page_browser [court_label_id, duration_label_id] confirmation_page)
     example_env court_label_id ''Outdoor Court 4'' []
   = (False, [''Failed to select dropdown option '' @ sq @ ''Outdoor Court 4'' @ sq @ '' from ''
                @ court_label_id @ '': Message: ''])"
  "\<not> fst (select_dropdown_option (page_browser [time_label_id] confirmation_page)
            example_env time_label_id (convert_time_format ''14:05'') w)"
  by (simp_all add: select_dropdown_option_def select_dropdown_body_def and_then_def act_def
      page_browser_def example_env_def)

text \<open>
  The theorem at the example pages: the court selection fails, is logged and falls through;
  the failed time selection returns the failure from the form stage.
\<close>

theorem form_population_only_time_is_fatal_witness:
  "select_court (page_browser [court_label_id, duration_label_id] confirmation_page) example_env
       (Some ''Outdoor Court 4'') []
     = (Next (), [''Failed to select dropdown option '' @ sq @ ''Outdoor Court 4'' @ sq @ '' from ''
                    @ court_label_id @ '': Message: '',
                  ''Could not select Outdoor Court 4, proceeding with current selection.''])
   \<and> fst (fill_form (page_browser [time_label_id] confirmation_page) example_env ''14:05''
            (Some ''Outdoor Court 4'') 60 [])
     = Return \<lparr>success = False, message = ''Could not select time 02:05 PM in form dropdown.''\<rparr>"
proof -
  note t1 = form_population_only_time_is_fatal[of
      "page_browser [court_label_id, duration_label_id] confirmation_page" example_env
      "Some ''Outdoor Court 4''" "[]"]
  note t2 = form_population_only_time_is_fatal[of
      "page_browser [time_label_id] confirmation_page" example_env
      "Some ''Outdoor Court 4''" "[]" 60 "''14:05''"]
  have c: "convert_time_format ''14:05'' = ''02:05 PM''"
    by (simp add: convert_time_format_def strptime_HM_def match_HM_def re_H_def re_M_def
      re_two_def re_one_def re_lit_def is_digit_def in_range_def digit_val_def strftime_IMp_def
      pad2_def hour12_def am_pm_def digit_char_def)
  have 1: "select_court (page_browser [court_label_id, duration_label_id] confirmation_page) example_env
       (Some ''Outdoor Court 4'') []
     = (Next (), [''Failed to select dropdown option '' @ sq @ ''Outdoor Court 4'' @ sq @ '' from ''
                    @ court_label_id @ '': Message: '',
                  ''Could not select Outdoor Court 4, proceeding with current selection.''])"
    using t1[THEN conjunct2, THEN conjunct2, THEN conjunct1, rule_format,
        of "''Outdoor Court 4''"] example_dropdowns(1)
    by (simp add: example_env_def)
  have 2: "fst (fill_form (page_browser [time_label_id] confirmation_page) example_env ''14:05''
            (Some ''Outdoor Court 4'') 60 [])
     = Return \<lparr>success = False, message = ''Could not select time 02:05 PM in form dropdown.''\<rparr>"
    using t2[THEN conjunct2, THEN conjunct2, THEN conjunct2, THEN conjunct2, THEN conjunct1]
      example_dropdowns(2) c
    by simp
  from 1 2 show ?thesis by (rule conjI)
qed












section \<open>Properties of the batch run\<close>

lemma notify_fields:
  "st_db (notify E cid txt p st) = st_db st"
  "st_scraper (notify E cid txt p st) = st_scraper st"
  "st_trace (notify E cid txt p st) = st_trace st @ [Called_send_message cid txt]"
  by (simp_all add: notify_def split: prod.splits sum.splits)

lemma set_status_fields:
  "st_db (set_status E rid sn msg st)
     = update_request_status (st_db st) rid sn (Some msg) (now_isoformat E (st_world st))"
  "st_scraper (set_status E rid sn msg st) = st_scraper st"
  "st_world (set_status E rid sn msg st) = st_world st"
  "st_trace (set_status E rid sn msg st) = st_trace st"
  by (simp_all add: set_status_def)

lemma fail_request_fields:
  "st_db (fail_request E req st)
     = update_request_status (st_db st) (req_id req) ''failed'' (Some login_error_msg)
         (now_isoformat E (st_world st))"
  "st_trace (fail_request E req st) = st_trace st @ [login_failed_notice req]"
  by (simp_all add: fail_request_def notify_fields set_status_fields login_failed_notice_def
      login_error_msg_def)

lemma process_request_Inr:
  assumes "sc_make_booking S (requested_date req) (requested_time req) (court_preference req)
      (duration req) (st_scraper st)
      (logger E INFO (''Processing request #'' @ show_nat (req_id req) @ '': ''
                  @ requested_date req @ '' at '' @ requested_time req) (st_world st))
     = (Inr result, s', w')"
  shows "st_db (process_request E S req st)
       = update_request_status (st_db st) (req_id req) (status_for (Inr result))
           (Some (message_for (Inr result))) (now_isoformat E w')"
    and "st_trace (process_request E S req st)
       = st_trace st @ [Called_make_booking (req_id req) (requested_date req) (requested_time req)
                          (court_preference req) (duration req) (Inr result),
                        Called_send_message (chat_id req)
                          ((if success result then check_mark else cross_mark)
                             @ '' Booking request #'' @ show_nat (req_id req) @ '': ''
                             @ message result)]"
  using assms
  by (simp_all add: process_request_def booked_def notify_fields set_status_fields
      status_for_def message_for_def Let_def)

lemma process_request_Inl:
  assumes "sc_make_booking S (requested_date req) (requested_time req) (court_preference req)
      (duration req) (st_scraper st)
      (logger E INFO (''Processing request #'' @ show_nat (req_id req) @ '': ''
                  @ requested_date req @ '' at '' @ requested_time req) (st_world st))
     = (Inl e, s', w')"
  shows "st_db (process_request E S req st)
       = update_request_status (st_db st) (req_id req) (status_for (Inl e))
           (Some (message_for (Inl e)))
           (now_isoformat E (logger E ERROR (''Error processing request #''
                    @ show_nat (req_id req) @ '': '' @ exn_text e) w'))"
    and "st_trace (process_request E S req st)
       = st_trace st @ [Called_make_booking (req_id req) (requested_date req) (requested_time req)
                          (court_preference req) (duration req) (Inl e),
                        Called_send_message (chat_id req)
                          (cross_mark @ '' Booking request #'' @ show_nat (req_id req)
                             @ '' failed: '' @ exn_text e)]"
  using assms
  by (simp_all add: process_request_def booking_raised_def notify_fields set_status_fields
      status_for_def message_for_def Let_def)

lemma process_request_fields:
  "\<exists>res ts txt.
     st_db (process_request E S req st)
       = update_request_status (st_db st) (req_id req) (status_for res) (Some (message_for res)) ts
     \<and> st_trace (process_request E S req st)
       = st_trace st @ [Called_make_booking (req_id req) (requested_date req) (requested_time req)
                          (court_preference req) (duration req) res,
                        Called_send_message (chat_id req) txt]"
proof -
  let ?w1 = "logger E INFO (''Processing request #'' @ show_nat (req_id req) @ '': ''
                  @ requested_date req @ '' at '' @ requested_time req) (st_world st)"
  obtain res s' w' where c: "sc_make_booking S (requested_date req) (requested_time req)
      (court_preference req) (duration req) (st_scraper st) ?w1 = (res, s', w')"
    by (rule prod_cases3)
  show ?thesis
  proof (cases res)
    case (Inl e)
    with c have c': "sc_make_booking S (requested_date req) (requested_time req)
      (court_preference req) (duration req) (st_scraper st) ?w1 = (Inl e, s', w')" by simp
    from process_request_Inl[OF c'] Inl show ?thesis by (intro exI conjI)
  next
    case (Inr result)
    with c have c': "sc_make_booking S (requested_date req) (requested_time req)
      (court_preference req) (duration req) (st_scraper st) ?w1 = (Inr result, s', w')" by simp
    from process_request_Inr[OF c'] Inr show ?thesis by (intro exI conjI)
  qed
qed

lemma update_rows_length:
  "length (rows (update_request_status db rid sn msg ts)) = length (rows db)"
  by (simp add: update_request_status_def)

lemma update_rows_ids:
  "map req_id (rows (update_request_status db rid sn msg ts)) = map req_id (rows db)"
  by (induction "rows db" arbitrary: db) (auto simp: update_request_status_def set_status_row_def)

lemma update_rows_nth:
  "i < length (rows db) \<Longrightarrow>
   rows (update_request_status db rid sn msg ts) ! i =
     (if req_id (rows db ! i) = rid
      then (rows db ! i)\<lparr>status := sn, processed_at := Some ts, result_message := msg\<rparr>
      else rows db ! i)"
  by (simp add: update_request_status_def set_status_row_def)


lemma fold_updates_ids:
  assumes upd: "\<And>req st. \<exists>sn msg ts.
      st_db (F req st) = update_request_status (st_db st) (req_id req) sn msg ts"
  shows "map req_id (rows (st_db (fold F reqs st))) = map req_id (rows (st_db st))"
proof (induction reqs arbitrary: st)
  case Nil
  show ?case by simp
next
  case (Cons a reqs)
  from upd[of a st] obtain sn msg ts where
    "st_db (F a st) = update_request_status (st_db st) (req_id a) sn msg ts" by blast
  then have "map req_id (rows (st_db (F a st))) = map req_id (rows (st_db st))"
    by (simp add: update_rows_ids)
  with Cons.IH[of "F a st"] show ?case by simp
qed

lemma fold_updates_length:
  assumes upd: "\<And>req st. \<exists>sn msg ts.
      st_db (F req st) = update_request_status (st_db st) (req_id req) sn msg ts"
  shows "length (rows (st_db (fold F reqs st))) = length (rows (st_db st))"
  using fold_updates_ids[OF upd, of reqs st] by (metis length_map)

lemma fold_updates_frame:
  assumes upd: "\<And>req st. \<exists>sn msg ts.
      st_db (F req st) = update_request_status (st_db st) (req_id req) sn msg ts"
    and "i < length (rows (st_db st))"
    and "req_id (rows (st_db st) ! i) \<notin> req_id ` set reqs"
  shows "rows (st_db (fold F reqs st)) ! i = rows (st_db st) ! i"
  using assms(2,3)
proof (induction reqs arbitrary: st)
  case Nil
  show ?case by simp
next
  case (Cons a reqs)
  from upd[of a st] obtain sn msg ts where
    u: "st_db (F a st) = update_request_status (st_db st) (req_id a) sn msg ts" by blast
  from Cons.prems have ne: "req_id (rows (st_db st) ! i) \<noteq> req_id a" by auto
  with u Cons.prems(1) have same: "rows (st_db (F a st)) ! i = rows (st_db st) ! i"
    by (simp add: update_rows_nth)
  have len: "i < length (rows (st_db (F a st)))"
    using u Cons.prems(1) by (simp add: update_rows_length)
  have "req_id (rows (st_db (F a st)) ! i) \<notin> req_id ` set reqs"
    using same Cons.prems(2) by auto
  from Cons.IH[OF len this] same show ?case by simp
qed

lemma fail_request_updates:
  "\<exists>sn msg ts. st_db (fail_request E req st)
     = update_request_status (st_db st) (req_id req) sn msg ts"
  using fail_request_fields(1) by blast

lemma process_request_updates:
  "\<exists>sn msg ts. st_db (process_request E S req st)
     = update_request_status (st_db st) (req_id req) sn msg ts"
  using process_request_fields[of E S req st] by blast

lemma fail_fold_trace:
  "st_trace (fold (fail_request E) reqs st) = st_trace st @ map login_failed_notice reqs"
  by (induction reqs arbitrary: st) (simp_all add: fail_request_fields)


lemma process_fold_terminal:
  assumes "i < length (rows (st_db st))"
    and "req_id (rows (st_db st) ! i) \<in> req_id ` set reqs
         \<or> status (rows (st_db st) ! i) \<in> {''completed'', ''failed''}"
  shows "status (rows (st_db (fold (process_request E S) reqs st)) ! i) \<in> {''completed'', ''failed''}"
  using assms
proof (induction reqs arbitrary: st)
  case Nil
  then show ?case by simp
next
  case (Cons a reqs)
  let ?st1 = "process_request E S a st"
  from process_request_fields[of E S a st] obtain res ts where
    u: "st_db ?st1 = update_request_status (st_db st) (req_id a) (status_for res)
          (Some (message_for res)) ts" by blast
  have len: "i < length (rows (st_db ?st1))"
    using Cons.prems(1) u by (simp add: update_rows_length)
  have row1: "rows (st_db ?st1) ! i =
     (if req_id (rows (st_db st) ! i) = req_id a
      then (rows (st_db st) ! i)\<lparr>status := status_for res, processed_at := Some ts,
              result_message := Some (message_for res)\<rparr>
      else rows (st_db st) ! i)"
    using Cons.prems(1) u by (simp add: update_rows_nth)
  have t: "status_for res \<in> {''completed'', ''failed''}"
    by (simp add: status_for_def split: sum.splits)
  have "req_id (rows (st_db ?st1) ! i) \<in> req_id ` set reqs
         \<or> status (rows (st_db ?st1) ! i) \<in> {''completed'', ''failed''}"
  proof (cases "req_id (rows (st_db st) ! i) = req_id a")
    case True
    with row1 t show ?thesis by simp
  next
    case False
    with row1 Cons.prems(2) show ?thesis by auto
  qed
  from Cons.IH[OF len this] show ?case by simp
qed

lemma process_fold_results:
  "\<exists>results. length results = length reqs
     \<and> filter is_make_booking (st_trace (fold (process_request E S) reqs st))
         = filter is_make_booking (st_trace st) @ map2 booking_call reqs results
     \<and> (distinct (map req_id reqs) \<longrightarrow>
          (\<forall>k<length reqs. \<forall>i<length (rows (st_db st)).
             req_id (rows (st_db st) ! i) = req_id (reqs ! k) \<longrightarrow>
               status (rows (st_db (fold (process_request E S) reqs st)) ! i) = status_for (results ! k)
               \<and> result_message (rows (st_db (fold (process_request E S) reqs st)) ! i)
                   = Some (message_for (results ! k))))"
proof (induction reqs arbitrary: st)
  case Nil
  show ?case by simp
next
  case (Cons a reqs)
  let ?st1 = "process_request E S a st"
  let ?fin = "fold (process_request E S) reqs ?st1"
  from process_request_fields[of E S a st] obtain res ts notice where
    u: "st_db ?st1 = update_request_status (st_db st) (req_id a) (status_for res)
          (Some (message_for res)) ts"
    and tr: "st_trace ?st1 = st_trace st @ [booking_call a res, Called_send_message (chat_id a) notice]"
    unfolding booking_call_def by blast
  from Cons.IH[of ?st1] obtain results where
    l: "length results = length reqs"
    and f: "filter is_make_booking (st_trace ?fin)
         = filter is_make_booking (st_trace ?st1) @ map2 booking_call reqs results"
    and d: "distinct (map req_id reqs) \<longrightarrow>
          (\<forall>k<length reqs. \<forall>i<length (rows (st_db ?st1)).
             req_id (rows (st_db ?st1) ! i) = req_id (reqs ! k) \<longrightarrow>
               status (rows (st_db ?fin) ! i) = status_for (results ! k)
               \<and> result_message (rows (st_db ?fin) ! i) = Some (message_for (results ! k)))"
    by blast
  have len1: "length (rows (st_db ?st1)) = length (rows (st_db st))"
    using u by (simp add: update_rows_length)
  have ids1: "\<And>i. i < length (rows (st_db st)) \<Longrightarrow>
      req_id (rows (st_db ?st1) ! i) = req_id (rows (st_db st) ! i)"
    using u by (simp add: update_rows_nth)
  have 1: "length (res # results) = length (a # reqs)" using l by simp
  have 2: "filter is_make_booking (st_trace (fold (process_request E S) (a # reqs) st))
         = filter is_make_booking (st_trace st) @ map2 booking_call (a # reqs) (res # results)"
    using f tr by (simp add: booking_call_def)
  have 3: "distinct (map req_id (a # reqs)) \<longrightarrow>
          (\<forall>k<length (a # reqs). \<forall>i<length (rows (st_db st)).
             req_id (rows (st_db st) ! i) = req_id ((a # reqs) ! k) \<longrightarrow>
               status (rows (st_db (fold (process_request E S) (a # reqs) st)) ! i)
                 = status_for ((res # results) ! k)
               \<and> result_message (rows (st_db (fold (process_request E S) (a # reqs) st)) ! i)
                   = Some (message_for ((res # results) ! k)))"
  proof (intro impI allI)
    fix k i
    assume dist: "distinct (map req_id (a # reqs))"
      and k: "k < length (a # reqs)" and i: "i < length (rows (st_db st))"
      and id: "req_id (rows (st_db st) ! i) = req_id ((a # reqs) ! k)"
    show "status (rows (st_db (fold (process_request E S) (a # reqs) st)) ! i)
                 = status_for ((res # results) ! k)
               \<and> result_message (rows (st_db (fold (process_request E S) (a # reqs) st)) ! i)
                   = Some (message_for ((res # results) ! k))"
    proof (cases k)
      case 0
      with id have ida: "req_id (rows (st_db st) ! i) = req_id a" by simp
      with u i have row1: "rows (st_db ?st1) ! i =
          (rows (st_db st) ! i)\<lparr>status := status_for res, processed_at := Some ts,
              result_message := Some (message_for res)\<rparr>"
        by (simp add: update_rows_nth)
      from dist have "req_id a \<notin> req_id ` set reqs" by auto
      with row1 ida have "req_id (rows (st_db ?st1) ! i) \<notin> req_id ` set reqs" by simp
      from fold_updates_frame[of "process_request E S", OF process_request_updates _ this]
        i len1
      have "rows (st_db ?fin) ! i = rows (st_db ?st1) ! i" by simp
      with row1 0 show ?thesis by simp
    next
      case (Suc k')
      with k have k': "k' < length reqs" by simp
      from dist have dr: "distinct (map req_id reqs)" by simp
      from id Suc ids1[OF i] have "req_id (rows (st_db ?st1) ! i) = req_id (reqs ! k')" by simp
      with d dr k' i len1 have "status (rows (st_db ?fin) ! i) = status_for (results ! k')
               \<and> result_message (rows (st_db ?fin) ! i) = Some (message_for (results ! k'))"
        by simp
      with Suc show ?thesis by simp
    qed
  qed
  from 1 2 3 show ?case by blast
qed


lemma fetched_set:
  "set (get_requests_for_date db d)
     = {r \<in> set (rows db). status r = ''pending'' \<and> requested_date r = d}"
  by (auto simp: get_requests_for_date_def)

lemma fetched_sorted: "sorted (map created_at (get_requests_for_date db d))"
  by (simp add: get_requests_for_date_def)

lemma fetched_distinct:
  assumes "distinct (map req_id (rows db))"
  shows "distinct (map req_id (get_requests_for_date db d))"
proof -
  from assms have "distinct (rows db)" and inj: "inj_on req_id (set (rows db))"
    by (simp_all add: distinct_map)
  then have "distinct (get_requests_for_date db d)"
    by (simp add: get_requests_for_date_def)
  moreover have "inj_on req_id (set (get_requests_for_date db d))"
    using inj by (rule inj_on_subset) (auto simp: fetched_set)
  ultimately show ?thesis by (simp add: distinct_map)
qed

lemma same_id_same_row:
  assumes "distinct (map req_id (rows db))" "x \<in> set (rows db)" "y \<in> set (rows db)"
    "req_id x = req_id y"
  shows "x = y"
  using assms by (auto simp: distinct_map dest: inj_onD)

text \<open>The shape of a batch run: where the store and the log of calls come from.\<close>

lemma batch_run_cases [consumes 1, case_names idle login_raised login_failed logged_in]:
  assumes run: "process_pending_requests E (S :: ('s, 'w) scraper) db w = (res, db', w', tr)"
  obtains
    (idle) "db' = db" "tr = []"
  | (login_raised) d e where "eligible_date (batch_today E w) = Inr d"
      "db' = db" "tr = [Called_login (Inl e), Called_close]"
  | (login_failed) d and st1 :: "('s, 'w) run_state" where "eligible_date (batch_today E w) = Inr d"
      "st_db st1 = db" "st_trace st1 = [Called_login (Inr False)]"
      "db' = st_db (fold (fail_request E) (get_requests_for_date db (strftime_Ymd d)) st1)"
      "tr = st_trace (fold (fail_request E) (get_requests_for_date db (strftime_Ymd d)) st1)
             @ [Called_close]"
  | (logged_in) d and st1 :: "('s, 'w) run_state" where "eligible_date (batch_today E w) = Inr d"
      "st_db st1 = db" "st_trace st1 = [Called_login (Inr True)]"
      "db' = st_db (fold (process_request E S) (get_requests_for_date db (strftime_Ymd d)) st1)"
      "tr = st_trace (fold (process_request E S) (get_requests_for_date db (strftime_Ymd d)) st1)
             @ [Called_close]"
proof (cases "eligible_date (batch_today E w)")
  case (Inl e)
  with run have "db' = db" "tr = []"
    by (simp_all add: process_pending_requests_def batch_today_def Let_def)
  then show ?thesis by (rule idle)
next
  case (Inr d)
  let ?reqs = "get_requests_for_date db (strftime_Ymd d)"
  show ?thesis
  proof (cases "?reqs = []")
    case True
    with run Inr have "db' = db" "tr = []"
      by (simp_all add: process_pending_requests_def batch_today_def Let_def)
    then show ?thesis by (rule idle)
  next
    case False
    let ?w0 = "logger E INFO ''Processing pending booking requests...'' w"
    let ?w1 = "logger E INFO (''Found '' @ show_nat (length ?reqs)
                               @ '' pending request(s) for '' @ strftime_Ymd d) ?w0"
    let ?st0 = "\<lparr>st_db = db, st_scraper = sc_new S, st_world = ?w1, st_trace = []\<rparr>"
    obtain fl st where rs: "run_session E S ?reqs ?st0 = (fl, st)"
      by (cases "run_session E S ?reqs ?st0")
    from run Inr False rs have fin: "db' = st_db st" "tr = st_trace st @ [Called_close]"
      by (auto simp: process_pending_requests_def batch_today_def Let_def
          split: prod.splits sum.splits flow.splits)
    obtain lr s1 w1 where lg: "sc_login S (sc_new S) ?w1 = (lr, s1, w1)"
      by (rule prod_cases3)
    let ?st1 = "?st0\<lparr>st_scraper := s1, st_world := w1, st_trace := [Called_login lr]\<rparr>"
    show ?thesis
    proof (cases lr)
      case (Inl e)
      with rs lg have "st_db st = db" "st_trace st = [Called_login (Inl e)]"
        by (auto simp: run_session_def Let_def)
      with fin have "db' = db" "tr = [Called_login (Inl e), Called_close]" by simp_all
      with Inr show ?thesis by (rule login_raised)
    next
      case lrb: (Inr b)
      show ?thesis
      proof (cases b)
        case True
        with rs lg lrb have st: "st = fold (process_request E S) ?reqs ?st1"
          by (auto simp: run_session_def Let_def)
        show ?thesis
        proof (rule logged_in[of d "?st1"])
          show "eligible_date (batch_today E w) = Inr d" by fact
          show "st_db ?st1 = db" by simp
          show "st_trace ?st1 = [Called_login (Inr True)]" using lrb True by simp
          show "db' = st_db (fold (process_request E S) ?reqs ?st1)" using fin st by simp
          show "tr = st_trace (fold (process_request E S) ?reqs ?st1) @ [Called_close]"
            using fin st by simp
        qed
      next
        case False
        let ?st2 = "?st1\<lparr>st_world := logger E ERROR login_error_msg w1\<rparr>"
        from False rs lg lrb have st: "st = fold (fail_request E) ?reqs ?st2"
          by (auto simp: run_session_def Let_def)
        show ?thesis
        proof (rule login_failed[of d "?st2"])
          show "eligible_date (batch_today E w) = Inr d" by fact
          show "st_db ?st2 = db" by simp
          show "st_trace ?st2 = [Called_login (Inr False)]" using lrb False by simp
          show "db' = st_db (fold (fail_request E) ?reqs ?st2)" using fin st by simp
          show "tr = st_trace (fold (fail_request E) ?reqs ?st2) @ [Called_close]"
            using fin st by simp
        qed
      qed
    qed
  qed
qed

lemma fold_updates_last_id:
  assumes upd: "\<And>req st. \<exists>sn msg ts.
      st_db (F req st) = update_request_status (st_db st) (req_id req) sn msg ts"
  shows "last_id (st_db (fold F reqs st)) = last_id (st_db st)"
proof (induction reqs arbitrary: st)
  case Nil
  show ?case by simp
next
  case (Cons a reqs)
  from upd[of a st] obtain sn msg ts where
    "st_db (F a st) = update_request_status (st_db st) (req_id a) sn msg ts" by blast
  then have "last_id (st_db (F a st)) = last_id (st_db st)"
    by (simp add: update_request_status_def)
  with Cons.IH[of "F a st"] show ?case by simp
qed



lemma notices_no_login: "filter is_login (map login_failed_notice reqs) = []"
  by (induction reqs) (simp_all add: login_failed_notice_def)


lemma login_in_filter: "Called_login r \<in> set tr \<Longrightarrow> Called_login r \<in> set (filter is_login tr)"
  by simp




text \<open>
  Claim C3. In a batch run whose login returns true, \<^verbatim>\<open>make_booking\<close> is called once for
  every fetched request, in the order of the fetch, which is sorted by creation time, whatever
  the earlier calls gave back. Every row that is one of the fetched requests ends
  \<^verbatim>\<open>completed\<close> or \<^verbatim>\<open>failed\<close>. With unique request ids, the row of a request
  holds the status and the message of its own call: \<^verbatim>\<open>completed\<close> for a success,
  \<^verbatim>\<open>failed\<close> with the result's message for a failure, \<^verbatim>\<open>failed\<close> with
  \<^verbatim>\<open>Error: \<close> and the exception text for an exception.
\<close>

theorem successful_login_resolves_all_fetched:
  assumes "process_pending_requests E S db w = (res, db', w', tr)"
    and "Called_login (Inr True) \<in> set tr"
  shows "length (rows db') = length (rows db)
       \<and> (\<exists>d. eligible_date (batch_today E w) = Inr d
            \<and> sorted (map created_at (get_requests_for_date db (strftime_Ymd d)))
            \<and> (\<forall>i<length (rows db).
                  rows db ! i \<in> set (get_requests_for_date db (strftime_Ymd d))
                  \<longrightarrow> status (rows db' ! i) \<in> {''completed'', ''failed''})
            \<and> (\<exists>results.
                  length results = length (get_requests_for_date db (strftime_Ymd d))
                  \<and> filter is_make_booking tr
                      = map2 booking_call (get_requests_for_date db (strftime_Ymd d)) results
                  \<and> (distinct (map req_id (rows db)) \<longrightarrow>
                       (\<forall>k<length (get_requests_for_date db (strftime_Ymd d)).
                        \<forall>i<length (rows db).
                          rows db ! i = get_requests_for_date db (strftime_Ymd d) ! k \<longrightarrow>
                            status (rows db' ! i) = status_for (results ! k)
                            \<and> result_message (rows db' ! i) = Some (message_for (results ! k))))))"
  using assms(1)
proof (cases rule: batch_run_cases)
  case idle
  with assms(2) show ?thesis by simp
next
  case (login_raised d e)
  with assms(2) show ?thesis by simp
next
  case (login_failed d st1)
  from assms(2) have "Called_login (Inr True) \<in> set (filter is_login tr)"
    by (rule login_in_filter)
  with login_failed(3,5) show ?thesis by (simp add: fail_fold_trace notices_no_login)
next
  case (logged_in d st1)
  let ?reqs = "get_requests_for_date db (strftime_Ymd d)"
  let ?fin = "fold (process_request E S) ?reqs st1"
  have len: "length (rows db') = length (rows db)"
    using logged_in(2,4)
      fold_updates_length[where F="process_request E S" and reqs="?reqs" and st=st1,
        OF process_request_updates]
    by simp
  have srt: "sorted (map created_at ?reqs)" by (rule fetched_sorted)
  have terminal: "\<forall>i<length (rows db). rows db ! i \<in> set ?reqs
                  \<longrightarrow> status (rows db' ! i) \<in> {''completed'', ''failed''}"
  proof (intro allI impI)
    fix i assume i: "i < length (rows db)" and m: "rows db ! i \<in> set ?reqs"
    from i logged_in(2) have i': "i < length (rows (st_db st1))" by simp
    from m logged_in(2) have "req_id (rows (st_db st1) ! i) \<in> req_id ` set ?reqs
         \<or> status (rows (st_db st1) ! i) \<in> {''completed'', ''failed''}" by simp
    from process_fold_terminal[OF i' this, of E S] logged_in(4)
    show "status (rows db' ! i) \<in> {''completed'', ''failed''}" by simp
  qed
  from process_fold_results[of ?reqs E S st1] obtain results where
    rl: "length results = length ?reqs"
    and rf: "filter is_make_booking (st_trace ?fin)
         = filter is_make_booking (st_trace st1) @ map2 booking_call ?reqs results"
    and rd: "distinct (map req_id ?reqs) \<longrightarrow>
          (\<forall>k<length ?reqs. \<forall>i<length (rows (st_db st1)).
             req_id (rows (st_db st1) ! i) = req_id (?reqs ! k) \<longrightarrow>
               status (rows (st_db ?fin) ! i) = status_for (results ! k)
               \<and> result_message (rows (st_db ?fin) ! i) = Some (message_for (results ! k)))"
    by blast
  have calls: "filter is_make_booking tr = map2 booking_call ?reqs results"
    using rf logged_in(3,5) by simp
  have own: "distinct (map req_id (rows db)) \<longrightarrow>
       (\<forall>k<length ?reqs. \<forall>i<length (rows db). rows db ! i = ?reqs ! k \<longrightarrow>
          status (rows db' ! i) = status_for (results ! k)
          \<and> result_message (rows db' ! i) = Some (message_for (results ! k)))"
  proof (intro impI allI)
    fix k i
    assume dist: "distinct (map req_id (rows db))" and k: "k < length ?reqs"
      and i: "i < length (rows db)" and e: "rows db ! i = ?reqs ! k"
    from dist have "distinct (map req_id ?reqs)" by (rule fetched_distinct)
    with rd k i e logged_in(2,4)
    show "status (rows db' ! i) = status_for (results ! k)
          \<and> result_message (rows db' ! i) = Some (message_for (results ! k))"
      by simp
  qed
  from rl calls own
  have "\<exists>results. length results = length ?reqs
          \<and> filter is_make_booking tr = map2 booking_call ?reqs results
          \<and> (distinct (map req_id (rows db)) \<longrightarrow>
               (\<forall>k<length ?reqs. \<forall>i<length (rows db). rows db ! i = ?reqs ! k \<longrightarrow>
                  status (rows db' ! i) = status_for (results ! k)
                  \<and> result_message (rows db' ! i) = Some (message_for (results ! k))))"
    by (intro exI[of _ results] conjI)
  with logged_in(1) srt terminal
  have "\<exists>d. eligible_date (batch_today E w) = Inr d
            \<and> sorted (map created_at (get_requests_for_date db (strftime_Ymd d)))
            \<and> (\<forall>i<length (rows db).
                  rows db ! i \<in> set (get_requests_for_date db (strftime_Ymd d))
                  \<longrightarrow> status (rows db' ! i) \<in> {''completed'', ''failed''})
            \<and> (\<exists>results.
                  length results = length (get_requests_for_date db (strftime_Ymd d))
                  \<and> filter is_make_booking tr
                      = map2 booking_call (get_requests_for_date db (strftime_Ymd d)) results
                  \<and> (distinct (map req_id (rows db)) \<longrightarrow>
                       (\<forall>k<length (get_requests_for_date db (strftime_Ymd d)).
                        \<forall>i<length (rows db).
                          rows db ! i = get_requests_for_date db (strftime_Ymd d) ! k \<longrightarrow>
                            status (rows db' ! i) = status_for (results ! k)
                            \<and> result_message (rows db' ! i) = Some (message_for (results ! k)))))"
    by (intro exI[of _ d] conjI)
  with len show ?thesis by (intro conjI)
qed

lemma unfetched_id:
  assumes dist: "distinct (map req_id (rows db))"
    and i: "i < length (rows db)"
    and no: "requested_date (rows db ! i) \<noteq> d \<or> status (rows db ! i) \<noteq> ''pending''"
  shows "req_id (rows db ! i) \<notin> req_id ` set (get_requests_for_date db d)"
proof
  assume "req_id (rows db ! i) \<in> req_id ` set (get_requests_for_date db d)"
  then obtain r where r: "r \<in> set (get_requests_for_date db d)" "req_id (rows db ! i) = req_id r"
    by blast
  from r(1) have rr: "r \<in> set (rows db)" "status r = ''pending''" "requested_date r = d"
    by (simp_all add: fetched_set)
  from i have "rows db ! i \<in> set (rows db)" by simp
  from same_id_same_row[OF dist this rr(1) r(2)] have "rows db ! i = r" .
  with rr no show False by simp
qed

text \<open>
  Claim C4. With unique request ids, a batch run leaves every row untouched whose requested
  date is not the eligible date (today plus two days) or whose status is not
  \<^verbatim>\<open>pending\<close>: all its columns are as they were, whatever the scraper and the bot do.
  The run adds and removes no row, and when the eligible date cannot be computed the store is
  the one it was.
\<close>

theorem batch_run_touches_only_fetched:
  assumes "distinct (map req_id (rows db))"
    and "process_pending_requests E S db w = (res, db', w', tr)"
  shows "length (rows db') = length (rows db)
       \<and> last_id db' = last_id db
       \<and> (\<forall>e. eligible_date (batch_today E w) = Inl e \<longrightarrow> db' = db)
       \<and> (\<forall>d i. eligible_date (batch_today E w) = Inr d \<and> i < length (rows db)
              \<and> (requested_date (rows db ! i) \<noteq> strftime_Ymd d
                   \<or> status (rows db ! i) \<noteq> ''pending'')
            \<longrightarrow> rows db' ! i = rows db ! i)"
  using assms(2)
proof (cases rule: batch_run_cases)
  case idle
  then show ?thesis by simp
next
  case (login_raised d e)
  then show ?thesis by simp
next
  case (login_failed d st1)
  let ?reqs = "get_requests_for_date db (strftime_Ymd d)"
  note upd = fail_request_updates
  have len: "length (rows db') = length (rows db)"
    using login_failed(2,4)
      fold_updates_length[where F="fail_request E" and reqs="?reqs" and st=st1, OF upd]
    by simp
  have lid: "last_id db' = last_id db"
    using login_failed(2,4)
      fold_updates_last_id[where F="fail_request E" and reqs="?reqs" and st=st1, OF upd]
    by simp
  have frame: "\<forall>d' i. eligible_date (batch_today E w) = Inr d' \<and> i < length (rows db)
              \<and> (requested_date (rows db ! i) \<noteq> strftime_Ymd d'
                   \<or> status (rows db ! i) \<noteq> ''pending'')
            \<longrightarrow> rows db' ! i = rows db ! i"
  proof (intro allI impI)
    fix d' i
    assume h: "eligible_date (batch_today E w) = Inr d' \<and> i < length (rows db)
              \<and> (requested_date (rows db ! i) \<noteq> strftime_Ymd d'
                   \<or> status (rows db ! i) \<noteq> ''pending'')"
    with login_failed(1) have dd: "d' = d" by simp
    from h have i: "i < length (rows db)" by simp
    from h dd have no: "requested_date (rows db ! i) \<noteq> strftime_Ymd d
                   \<or> status (rows db ! i) \<noteq> ''pending''" by simp
    from unfetched_id[OF assms(1) i no] login_failed(2)
    have n: "req_id (rows (st_db st1) ! i) \<notin> req_id ` set ?reqs" by simp
    from i login_failed(2) have i': "i < length (rows (st_db st1))" by simp
    from fold_updates_frame[where F="fail_request E", OF upd i' n] login_failed(2,4)
    show "rows db' ! i = rows db ! i" by simp
  qed
  from login_failed(1) have "\<forall>e. eligible_date (batch_today E w) = Inl e \<longrightarrow> db' = db" by simp
  with len lid frame show ?thesis by (intro conjI)
next
  case (logged_in d st1)
  let ?reqs = "get_requests_for_date db (strftime_Ymd d)"
  note upd = process_request_updates
  have len: "length (rows db') = length (rows db)"
    using logged_in(2,4)
      fold_updates_length[where F="process_request E S" and reqs="?reqs" and st=st1, OF upd]
    by simp
  have lid: "last_id db' = last_id db"
    using logged_in(2,4)
      fold_updates_last_id[where F="process_request E S" and reqs="?reqs" and st=st1, OF upd]
    by simp
  have frame: "\<forall>d' i. eligible_date (batch_today E w) = Inr d' \<and> i < length (rows db)
              \<and> (requested_date (rows db ! i) \<noteq> strftime_Ymd d'
                   \<or> status (rows db ! i) \<noteq> ''pending'')
            \<longrightarrow> rows db' ! i = rows db ! i"
  proof (intro allI impI)
    fix d' i
    assume h: "eligible_date (batch_today E w) = Inr d' \<and> i < length (rows db)
              \<and> (requested_date (rows db ! i) \<noteq> strftime_Ymd d'
                   \<or> status (rows db ! i) \<noteq> ''pending'')"
    with logged_in(1) have dd: "d' = d" by simp
    from h have i: "i < length (rows db)" by simp
    from h dd have no: "requested_date (rows db ! i) \<noteq> strftime_Ymd d
                   \<or> status (rows db ! i) \<noteq> ''pending''" by simp
    from unfetched_id[OF assms(1) i no] logged_in(2)
    have n: "req_id (rows (st_db st1) ! i) \<notin> req_id ` set ?reqs" by simp
    from i logged_in(2) have i': "i < length (rows (st_db st1))" by simp
    from fold_updates_frame[where F="process_request E S", OF upd i' n] logged_in(2,4)
    show "rows db' ! i = rows db ! i" by simp
  qed
  from logged_in(1) have "\<forall>e. eligible_date (batch_today E w) = Inl e \<longrightarrow> db' = db" by simp
  with len lid frame show ?thesis by (intro conjI)
qed

text \<open>
  Request ids are unique in every store that the repository operations build from the empty
  one: \<^verbatim>\<open>AUTOINCREMENT\<close> hands out an id above all ids in the table, and no operation
  changes an id.
\<close>

lemma fold_max_ge: "a \<le> fold max xs (a::nat)"
proof (induction xs arbitrary: a)
  case Nil
  show ?case by simp
next
  case (Cons y ys)
  have "a \<le> max y a" by simp
  also have "max y a \<le> fold max ys (max y a)" by (rule Cons.IH)
  finally show ?case by simp
qed

lemma fold_max_bounds: "x \<in> set xs \<Longrightarrow> x \<le> fold max xs (a::nat)"
proof (induction xs arbitrary: a)
  case Nil
  then show ?case by simp
next
  case (Cons y ys)
  show ?case
  proof (cases "x = y")
    case True
    have "y \<le> max y a" by simp
    also have "max y a \<le> fold max ys (max y a)" by (rule fold_max_ge)
    finally show ?thesis using True by simp
  next
    case False
    with Cons.prems have "x \<in> set ys" by simp
    from Cons.IH[OF this] show ?thesis by simp
  qed
qed

lemma add_request_distinct:
  assumes "distinct (map req_id (rows db))"
  shows "distinct (map req_id (rows (snd (add_request db uid cid rdate rtime court dur now))))"
proof -
  have "\<forall>r \<in> set (rows db). req_id r < next_rowid db"
  proof
    fix r assume "r \<in> set (rows db)"
    then have "req_id r \<in> set (map req_id (rows db))" by simp
    from fold_max_bounds[OF this, of "last_id db"] show "req_id r < next_rowid db"
      by (simp add: next_rowid_def)
  qed
  then have "next_rowid db \<notin> req_id ` set (rows db)" by auto
  with assms show ?thesis by (simp add: add_request_def Let_def)
qed

lemma cancel_rows_ids:
  "map req_id (rows (snd (cancel_request db rid uid))) = map req_id (rows db)"
  by (induction "rows db" arbitrary: db) (auto simp: cancel_request_def Let_def)

lemma apply_op_distinct:
  "distinct (map req_id (rows db)) \<Longrightarrow> distinct (map req_id (rows (apply_op op db)))"
  by (cases op) (simp_all add: add_request_distinct update_rows_ids cancel_rows_ids)

lemma run_ops_distinct:
  "distinct (map req_id (rows db)) \<Longrightarrow> distinct (map req_id (rows (run_ops ops db)))"
  unfolding run_ops_def by (induction ops arbitrary: db) (simp_all add: apply_op_distinct)

lemma reachable_ids_distinct: "distinct (map req_id (rows (run_ops ops init_db)))"
  by (rule run_ops_distinct) (simp add: init_db_def)

lemma example_eligible_date:
  "eligible_date (batch_today example_env w) = Inr \<lparr>year = 2024, month = 12, day = 25\<rparr>"
  "strftime_Ymd \<lparr>year = 2024, month = 12, day = 25\<rparr> = ''2024-12-25''"
  by (simp_all add: eligible_date_def batch_today_def example_env_def next_day_def
      days_in_month_def strftime_Ymd_def pad2_def digit_char_def show_nat.simps[of 2024]
      show_nat.simps[of 202] show_nat.simps[of 20] show_nat.simps[of 2])

lemma example_runs:
  "Called_login (Inr False) \<in> set (snd (snd (snd locked_out_run)))"
  "map status (rows (fst (snd locked_out_run)))
     = [''failed'', ''failed'', ''failed'', ''pending'', ''cancelled'']"
  "Called_login (Inr True) \<in> set (snd (snd (snd logged_in_run)))"
  "map status (rows (fst (snd logged_in_run)))
     = [''completed'', ''failed'', ''failed'', ''pending'', ''cancelled'']"
  "map result_message (rows (fst (snd logged_in_run)))
     = [Some ''Booking confirmed for 2024-12-25 at 10:00: ok'',
        Some ''Entry slot (ID 11 at 06:00 AM) not found in grid.'',
        Some ''Error: session deleted'', None, None]"
  by code_simp+

lemma example_rows:
  "length (rows batch_db) = 5"
  "requested_date (rows batch_db ! 3) = ''2024-12-26''"
  "status (rows batch_db ! 4) = ''cancelled''"
  by code_simp+


text \<open>
  The theorem at the example store with the stub scraper whose login returns true: the first
  request is completed, the second fails on a missing entry slot, the third on an exception,
  and all three were attempted, in the order of their creation.
\<close>

theorem successful_login_resolves_all_fetched_witness:
  "Called_login (Inr True) \<in> set (snd (snd (snd logged_in_run)))
   \<and> map status (rows (fst (snd logged_in_run)))
       = [''completed'', ''failed'', ''failed'', ''pending'', ''cancelled'']
   \<and> sorted (map created_at (get_requests_for_date batch_db ''2024-12-25''))
   \<and> (\<exists>results. length results = length (get_requests_for_date batch_db ''2024-12-25'')
         \<and> filter is_make_booking (snd (snd (snd logged_in_run)))
             = map2 booking_call (get_requests_for_date batch_db ''2024-12-25'') results)"
proof -
  have p: "process_pending_requests example_env (stub_scraper True) batch_db []
      = (fst logged_in_run, fst (snd logged_in_run), fst (snd (snd logged_in_run)),
         snd (snd (snd logged_in_run)))"
    by (simp add: logged_in_run_def)
  note t = successful_login_resolves_all_fetched[OF p example_runs(3)]
  from t[THEN conjunct2] obtain d results where
    d: "eligible_date (batch_today example_env []) = Inr d"
    and s: "sorted (map created_at (get_requests_for_date batch_db (strftime_Ymd d)))"
    and l: "length results = length (get_requests_for_date batch_db (strftime_Ymd d))"
    and f: "filter is_make_booking (snd (snd (snd logged_in_run)))
             = map2 booking_call (get_requests_for_date batch_db (strftime_Ymd d)) results"
    by (elim exE conjE)
  from d example_eligible_date(1)[of "[]"] have "d = \<lparr>year = 2024, month = 12, day = 25\<rparr>"
    by simp
  then have "strftime_Ymd d = ''2024-12-25''" by (simp add: example_eligible_date(2))
  with s l f have a: "sorted (map created_at (get_requests_for_date batch_db ''2024-12-25''))"
    and b: "\<exists>results. length results = length (get_requests_for_date batch_db ''2024-12-25'')
         \<and> filter is_make_booking (snd (snd (snd logged_in_run)))
             = map2 booking_call (get_requests_for_date batch_db ''2024-12-25'') results"
    by auto
  from example_runs(3) example_runs(4) a b show ?thesis by (intro conjI)
qed

text \<open>
  The theorem at the example store, for both stub scrapers: the request for the 26th and the
  cancelled request are the rows they were.
\<close>

theorem batch_run_touches_only_fetched_witness:
  "distinct (map req_id (rows batch_db))
   \<and> rows (fst (snd logged_in_run)) ! 3 = rows batch_db ! 3
   \<and> rows (fst (snd logged_in_run)) ! 4 = rows batch_db ! 4
   \<and> rows (fst (snd locked_out_run)) ! 3 = rows batch_db ! 3
   \<and> rows (fst (snd locked_out_run)) ! 4 = rows batch_db ! 4"
proof -
  have dist: "distinct (map req_id (rows batch_db))"
    unfolding batch_db_def by (rule reachable_ids_distinct)
  have p: "process_pending_requests example_env (stub_scraper True) batch_db []
      = (fst logged_in_run, fst (snd logged_in_run), fst (snd (snd logged_in_run)),
         snd (snd (snd logged_in_run)))"
    by (simp add: logged_in_run_def)
  have q: "process_pending_requests example_env (stub_scraper False) batch_db []
      = (fst locked_out_run, fst (snd locked_out_run), fst (snd (snd locked_out_run)),
         snd (snd (snd locked_out_run)))"
    by (simp add: locked_out_run_def)
  note e = example_eligible_date(1)[of "[]"]
  have c3: "eligible_date (batch_today example_env []) = Inr \<lparr>year = 2024, month = 12, day = 25\<rparr>
      \<and> 3 < length (rows batch_db)
      \<and> (requested_date (rows batch_db ! 3) \<noteq> strftime_Ymd \<lparr>year = 2024, month = 12, day = 25\<rparr>
          \<or> status (rows batch_db ! 3) \<noteq> ''pending'')"
    using e by (simp add: example_rows example_eligible_date(2))
  have c4: "eligible_date (batch_today example_env []) = Inr \<lparr>year = 2024, month = 12, day = 25\<rparr>
      \<and> 4 < length (rows batch_db)
      \<and> (requested_date (rows batch_db ! 4) \<noteq> strftime_Ymd \<lparr>year = 2024, month = 12, day = 25\<rparr>
          \<or> status (rows batch_db ! 4) \<noteq> ''pending'')"
    using e by (simp add: example_rows example_eligible_date(2))
  note tp = batch_run_touches_only_fetched[OF dist p, THEN conjunct2, THEN conjunct2,
      THEN conjunct2, rule_format]
  note tq = batch_run_touches_only_fetched[OF dist q, THEN conjunct2, THEN conjunct2,
      THEN conjunct2, rule_format]
  from dist tp[OF c3] tp[OF c4] tq[OF c3] tq[OF c4] show ?thesis by (intro conjI)
qed

end
